theory Spec2Isabelle
  imports Complex_Main "HOL-Library.AList" "HOL-Library.Sublist"
begin

chapter \<open>The trade replication engine: model\<close>

text \<open>
  The model follows two source files of the repository: the order executor
  (\<^verbatim>\<open>postOrder\<close>, with its MERGE, BUY and SELL branches and the flooring helpers) and
  the trade executor (the aggregation buffer, the market trackers and
  \<^verbatim>\<open>checkArbBeforeExecution\<close>).
\<close>

section \<open>JavaScript numbers\<close>

text \<open>
  A JavaScript number is an IEEE 754 binary64 value: a finite value \<open>m \<cdot> 2\<^sup>e\<close> with an
  integer \<open>m\<close> of at most 53 bits and \<open>e \<ge> -1074\<close>, one of the two infinities, or
  \<^verbatim>\<open>NaN\<close>. The two zeros are not told apart: they differ only in the sign of a quotient
  by zero, which is taken to be that of the dividend.
\<close>

datatype number = Finite real | Infinity | MinusInfinity | NaN

text \<open>The exponent of a positive real: the integer \<open>k\<close> with \<open>2\<^sup>k \<le> x < 2\<^sup>k\<^sup>+\<^sup>1\<close>.\<close>

fun log2floor :: "nat \<Rightarrow> nat" where
  "log2floor n = (if n < 2 then 0 else Suc (log2floor (n div 2)))"

declare log2floor.simps [simp del]

definition ilog2 :: "real \<Rightarrow> int" where
  "ilog2 x = (if 1 \<le> x then int (log2floor (nat \<lfloor>x\<rfloor>))
              else - int (log2floor (nat (\<lceil>1 / x\<rceil> - 1))) - 1)"

definition pow2 :: "int \<Rightarrow> real" where
  "pow2 e = (if 0 \<le> e then 2 ^ nat e else 1 / 2 ^ nat (- e))"

definition roundHalfEven :: "real \<Rightarrow> int" where
  "roundHalfEven x =
     (let f = \<lfloor>x\<rfloor>; d = x - real_of_int f
      in if d < 1 / 2 then f else if 1 / 2 < d then f + 1 else if even f then f else f + 1)"

text \<open>
  Rounding: the binary64 value nearest to a real number, ties to the even \<open>m\<close>; a result
  of magnitude \<open>2\<^sup>1\<^sup>0\<^sup>2\<^sup>4\<close> or more is infinite. Every arithmetic operation returns the exact
  result rounded in this way, and a decimal literal of the program text or of a JSON text
  stands for the rounded value of the decimal.
\<close>

definition binary64 :: "real \<Rightarrow> number" where
  "binary64 x =
     (if x = 0 then Finite 0
      else let e = max (ilog2 \<bar>x\<bar>) (- 1022) - 52;
               r = sgn x * real_of_int (roundHalfEven (\<bar>x\<bar> / pow2 e)) * pow2 e
           in if 2 ^ 1024 \<le> \<bar>r\<bar> then (if 0 < x then Infinity else MinusInfinity)
              else Finite r)"

text \<open>
  The operators \<^verbatim>\<open>+ - * /\<close> and the comparisons \<^verbatim>\<open>< <=\<close> (\<^verbatim>\<open>a > b\<close> is \<^verbatim>\<open>b < a\<close>,
  \<^verbatim>\<open>a >= b\<close> is \<^verbatim>\<open>b <= a\<close>). A comparison with \<^verbatim>\<open>NaN\<close> is false.
\<close>

instantiation number :: "{plus, minus, times, inverse, ord}"
begin

fun plus_number :: "number \<Rightarrow> number \<Rightarrow> number" where
  "Finite x + Finite y = binary64 (x + y)"
| "NaN + b = NaN"
| "a + NaN = NaN"
| "Infinity + MinusInfinity = NaN"
| "MinusInfinity + Infinity = NaN"
| "Infinity + b = Infinity"
| "a + Infinity = Infinity"
| "MinusInfinity + b = MinusInfinity"
| "a + MinusInfinity = MinusInfinity"

fun minus_number :: "number \<Rightarrow> number \<Rightarrow> number" where
  "Finite x - Finite y = binary64 (x - y)"
| "NaN - b = NaN"
| "a - NaN = NaN"
| "Infinity - Infinity = NaN"
| "MinusInfinity - MinusInfinity = NaN"
| "Infinity - b = Infinity"
| "a - MinusInfinity = Infinity"
| "MinusInfinity - b = MinusInfinity"
| "a - Infinity = MinusInfinity"

fun times_number :: "number \<Rightarrow> number \<Rightarrow> number" where
  "Finite x * Finite y = binary64 (x * y)"
| "NaN * b = NaN"
| "a * NaN = NaN"
| "Finite x * Infinity = (if x = 0 then NaN else if 0 < x then Infinity else MinusInfinity)"
| "Finite x * MinusInfinity = (if x = 0 then NaN else if 0 < x then MinusInfinity else Infinity)"
| "Infinity * Finite y = (if y = 0 then NaN else if 0 < y then Infinity else MinusInfinity)"
| "MinusInfinity * Finite y = (if y = 0 then NaN else if 0 < y then MinusInfinity else Infinity)"
| "Infinity * Infinity = Infinity"
| "Infinity * MinusInfinity = MinusInfinity"
| "MinusInfinity * Infinity = MinusInfinity"
| "MinusInfinity * MinusInfinity = Infinity"

fun divide_number :: "number \<Rightarrow> number \<Rightarrow> number" where
  "divide_number (Finite x) (Finite y) =
     (if y = 0 then (if x = 0 then NaN else if 0 < x then Infinity else MinusInfinity)
      else binary64 (x / y))"
| "divide_number NaN b = NaN"
| "divide_number a NaN = NaN"
| "divide_number (Finite x) Infinity = Finite 0"
| "divide_number (Finite x) MinusInfinity = Finite 0"
| "divide_number Infinity (Finite y) = (if 0 \<le> y then Infinity else MinusInfinity)"
| "divide_number MinusInfinity (Finite y) = (if 0 \<le> y then MinusInfinity else Infinity)"
| "divide_number Infinity b = NaN"
| "divide_number MinusInfinity b = NaN"

definition inverse_number :: "number \<Rightarrow> number" where
  "inverse_number a = divide (Finite 1) a"

fun less_number :: "number \<Rightarrow> number \<Rightarrow> bool" where
  "Finite x < Finite y = (x < y)"
| "Finite x < Infinity = True"
| "MinusInfinity < Finite y = True"
| "MinusInfinity < Infinity = True"
| "(a::number) < b = False"

fun less_eq_number :: "number \<Rightarrow> number \<Rightarrow> bool" where
  "Finite x \<le> Finite y = (x \<le> y)"
| "Finite x \<le> Infinity = True"
| "MinusInfinity \<le> Finite y = True"
| "MinusInfinity \<le> Infinity = True"
| "Infinity \<le> Infinity = True"
| "MinusInfinity \<le> MinusInfinity = True"
| "(a::number) \<le> b = False"

instance ..

end

text \<open>
  \<^verbatim>\<open>Math.floor\<close>, \<^verbatim>\<open>Math.round\<close> (to the nearest integer, halves up), \<^verbatim>\<open>Math.abs\<close>,
  \<^verbatim>\<open>Math.max\<close> and \<^verbatim>\<open>Math.min\<close> of two numbers (\<^verbatim>\<open>NaN\<close> when one of them is), and
  \<^verbatim>\<open>Math.pow(10, d)\<close> for a natural number \<open>d\<close>.
\<close>

fun Math_floor :: "number \<Rightarrow> number" where
  "Math_floor (Finite x) = Finite (real_of_int \<lfloor>x\<rfloor>)"
| "Math_floor a = a"

fun Math_round :: "number \<Rightarrow> number" where
  "Math_round (Finite x) = Finite (real_of_int \<lfloor>x + 1 / 2\<rfloor>)"
| "Math_round a = a"

fun Math_abs :: "number \<Rightarrow> number" where
  "Math_abs (Finite x) = Finite \<bar>x\<bar>"
| "Math_abs NaN = NaN"
| "Math_abs a = Infinity"

definition Math_max :: "number \<Rightarrow> number \<Rightarrow> number" where
  "Math_max a b = (if a = NaN \<or> b = NaN then NaN else if a < b then b else a)"

definition Math_min :: "number \<Rightarrow> number \<Rightarrow> number" where
  "Math_min a b = (if a = NaN \<or> b = NaN then NaN else if b < a then b else a)"

definition Math_pow10 :: "nat \<Rightarrow> number" where
  "Math_pow10 d = binary64 (10 ^ d)"

text \<open>
  \<^verbatim>\<open>parseFloat(x.toFixed(d))\<close>. For a finite \<open>x\<close> below \<open>10\<^sup>2\<^sup>1\<close> in magnitude, \<^verbatim>\<open>toFixed\<close>
  prints the integer \<open>n\<close> for which \<open>n / 10\<^sup>d\<close> is nearest to \<open>x\<close> (the larger \<open>n\<close> of two),
  with the point \<open>d\<close> digits from the right, and \<^verbatim>\<open>parseFloat\<close> reads the decimal back
  as the nearest number. Any other number is printed in a form that reads back as itself.
\<close>

fun toFixedParsed :: "number \<Rightarrow> nat \<Rightarrow> number" where
  "toFixedParsed (Finite x) d =
     (if 10 ^ 21 \<le> \<bar>x\<bar> then Finite x
      else binary64 (sgn x * real_of_int \<lfloor>\<bar>x\<bar> * 10 ^ d + 1 / 2\<rfloor> / 10 ^ d))"
| "toFixedParsed a d = a"

text \<open>\<^verbatim>\<open>x || 0\<close>: the numbers that count as false are 0 and \<^verbatim>\<open>NaN\<close>.\<close>

definition orZero :: "number \<Rightarrow> number" where
  "orZero x = (if x = NaN \<or> x = Finite 0 then Finite 0 else x)"

section \<open>Flooring helpers\<close>

text \<open>
  \<^verbatim>\<open>roundToDecimals(value, decimals)\<close>, as it runs: the product and the quotient are
  rounded, \<^verbatim>\<open>Math.floor\<close> is exact.
\<close>

definition roundToDecimals :: "number \<Rightarrow> nat \<Rightarrow> number" where
  "roundToDecimals v decimals =
     (let factor = Math_pow10 decimals;
          rounded = Math_floor (v * factor) / factor
      in toFixedParsed rounded decimals)"

definition roundAmount :: "number \<Rightarrow> number" where
  "roundAmount amount = roundToDecimals amount 2"

definition roundTokens :: "number \<Rightarrow> number" where
  "roundTokens tokens = roundToDecimals tokens 4"

definition roundPrice :: "number \<Rightarrow> number" where
  "roundPrice p = roundToDecimals p 2"

text \<open>
  Flooring to \<open>d\<close> decimals as the specification words it, on the real numbers: the
  largest multiple of \<open>10\<^sup>-\<^sup>d\<close> that is at most \<open>x\<close>.
\<close>

definition floorDecimals :: "real \<Rightarrow> nat \<Rightarrow> real" where
  "floorDecimals x d = real_of_int \<lfloor>x * 10 ^ d\<rfloor> / 10 ^ d"

section \<open>Market trackers and the arbitrage check\<close>

definition ARB_MAX_COST_BASIS :: number where
  "ARB_MAX_COST_BASIS = binary64 (95 / 100)"

definition ARB_MAX_IMBALANCE :: number where
  "ARB_MAX_IMBALANCE = binary64 (25 / 100)"

record AssetExecution =
  asset :: string
  quantity :: number
  totalCost :: number
  avgPrice :: number

text \<open>
  A tracker holds a JavaScript \<^verbatim>\<open>Map\<close> from asset id to its execution data. A
  \<^verbatim>\<open>Map\<close> iterates in insertion order and the check takes the first entry of another
  asset, so the map is an association list in insertion order: \<^const>\<open>map_of\<close> is
  \<^verbatim>\<open>get\<close>, \<^const>\<open>AList.update\<close> is \<^verbatim>\<open>set\<close> (in place for a key that is present, at
  the end for a new one).
\<close>

record MarketTracker =
  conditionId :: string
  slug :: "string option"
  assets :: "(string \<times> AssetExecution) list"

type_synonym marketTrackers = "string \<rightharpoonup> MarketTracker"

text \<open>Truthiness of an optional string: \<^verbatim>\<open>undefined\<close> and the empty string are falsy.\<close>

definition truthy :: "string option \<Rightarrow> bool" where
  "truthy s = (case s of None \<Rightarrow> False | Some t \<Rightarrow> t \<noteq> [])"

text \<open>
  \<^verbatim>\<open>getMarketTracker\<close> returns the tracker and the store after the call. The tracker is
  an object shared with the store, so the assignment to its \<^verbatim>\<open>slug\<close> shows in the store.
\<close>

definition getMarketTracker ::
  "marketTrackers \<Rightarrow> string \<Rightarrow> string option \<Rightarrow> MarketTracker \<times> marketTrackers" where
  "getMarketTracker trackers cid slg =
     (let tracker = (case trackers cid of
                       None \<Rightarrow> \<lparr>conditionId = cid, slug = slg, assets = []\<rparr>
                     | Some t \<Rightarrow> t);
          tracker' = (if truthy slg \<and> \<not> truthy (slug tracker)
                      then tracker\<lparr>slug := slg\<rparr> else tracker)
      in (tracker', trackers(cid \<mapsto> tracker')))"

definition recordExecution ::
  "marketTrackers \<Rightarrow> string \<Rightarrow> string \<Rightarrow> number \<Rightarrow> number \<Rightarrow> string option
     \<Rightarrow> marketTrackers" where
  "recordExecution trackers cid ast qty cost slg =
     (let (tracker, trackers') = getMarketTracker trackers cid slg;
          side = (case map_of (assets tracker) ast of
                    Some existing \<Rightarrow>
                      existing\<lparr>quantity := quantity existing + qty,
                               totalCost := totalCost existing + cost,
                               avgPrice := (totalCost existing + cost) / (quantity existing + qty)\<rparr>
                  | None \<Rightarrow>
                      \<lparr>asset = ast, quantity = qty, totalCost = cost, avgPrice = cost / qty\<rparr>)
      in trackers'(cid \<mapsto> tracker\<lparr>assets := AList.update ast side (assets tracker)\<rparr>))"

text \<open>
  The local values of \<^verbatim>\<open>checkArbBeforeExecution\<close>, under the names the source gives
  them. \<^verbatim>\<open>thisExisting\<close> is the recorded side of the incoming asset, if any;
  \<^verbatim>\<open>otherAsset\<close> is the first recorded side of another asset. The current quantity
  and cost are \<^verbatim>\<open>thisExisting?.quantity || 0\<close> and \<^verbatim>\<open>thisExisting?.totalCost || 0\<close>.
\<close>

definition currentThisQty :: "AssetExecution option \<Rightarrow> number" where
  "currentThisQty thisExisting =
     (case thisExisting of None \<Rightarrow> Finite 0 | Some e \<Rightarrow> orZero (quantity e))"

definition currentThisCost :: "AssetExecution option \<Rightarrow> number" where
  "currentThisCost thisExisting =
     (case thisExisting of None \<Rightarrow> Finite 0 | Some e \<Rightarrow> orZero (totalCost e))"

definition newThisQty :: "AssetExecution option \<Rightarrow> number \<Rightarrow> number" where
  "newThisQty thisExisting newQuantity = currentThisQty thisExisting + newQuantity"

definition newThisCost :: "AssetExecution option \<Rightarrow> number \<Rightarrow> number \<Rightarrow> number" where
  "newThisCost thisExisting newQuantity newAvgPrice =
     currentThisCost thisExisting + newQuantity * newAvgPrice"

definition newThisAvgPrice :: "AssetExecution option \<Rightarrow> number \<Rightarrow> number \<Rightarrow> number" where
  "newThisAvgPrice thisExisting newQuantity newAvgPrice =
     newThisCost thisExisting newQuantity newAvgPrice / newThisQty thisExisting newQuantity"

definition findOtherAsset :: "(string \<times> AssetExecution) list \<Rightarrow> string \<Rightarrow> AssetExecution option" where
  "findOtherAsset entries thisAsset =
     map_option snd (find (\<lambda>(ast, d). ast \<noteq> thisAsset) entries)"

definition currentCostBasis :: "AssetExecution option \<Rightarrow> AssetExecution \<Rightarrow> number" where
  "currentCostBasis thisExisting otherAsset =
     (let currentThisAvgPrice =
            (if currentThisQty thisExisting > Finite 0
             then currentThisCost thisExisting / currentThisQty thisExisting else Finite 0)
      in currentThisAvgPrice + avgPrice otherAsset)"

definition currentImbalance :: "AssetExecution option \<Rightarrow> AssetExecution \<Rightarrow> number" where
  "currentImbalance thisExisting otherAsset =
     (let currentTotalQty = currentThisQty thisExisting + quantity otherAsset
      in if currentTotalQty > Finite 0
         then Math_abs (currentThisQty thisExisting - quantity otherAsset) / currentTotalQty
         else Finite 0)"

definition newCostBasis :: "AssetExecution option \<Rightarrow> AssetExecution \<Rightarrow> number \<Rightarrow> number \<Rightarrow> number" where
  "newCostBasis thisExisting otherAsset newQuantity newAvgPrice =
     newThisAvgPrice thisExisting newQuantity newAvgPrice + avgPrice otherAsset"

definition newImbalance :: "AssetExecution option \<Rightarrow> AssetExecution \<Rightarrow> number \<Rightarrow> number" where
  "newImbalance thisExisting otherAsset newQuantity =
     (let newTotalQty = newThisQty thisExisting newQuantity + quantity otherAsset
      in Math_abs (newThisQty thisExisting newQuantity - quantity otherAsset) / newTotalQty)"

text \<open>
  The result's \<^verbatim>\<open>reason\<close> is a log text with formatted numbers; the model keeps which
  of the six texts it is.
\<close>

datatype arb_reason =
  FirstSide | PushCostBasis | WorsenImbalance | ImprovesBalance | ImprovesCostBasis | ReasonOK

record ArbCheck =
  ok :: bool
  reason :: arb_reason
  costBasis :: number
  imbalance :: number

definition checkArbBeforeExecution ::
  "marketTrackers \<Rightarrow> string \<Rightarrow> string \<Rightarrow> number \<Rightarrow> number \<Rightarrow> string option
     \<Rightarrow> ArbCheck \<times> marketTrackers" where
  "checkArbBeforeExecution trackers cid thisAsset newQuantity newAvgPrice slg =
     (let (tracker, trackers') = getMarketTracker trackers cid slg;
          thisExisting = map_of (assets tracker) thisAsset;
          firstSide = \<lparr>ok = True, reason = FirstSide, costBasis = Finite 0,
                       imbalance = Finite 0\<rparr>
      in (case findOtherAsset (assets tracker) thisAsset of
            None \<Rightarrow> firstSide
          | Some otherAsset \<Rightarrow>
              if quantity otherAsset = Finite 0 then firstSide
              else
                let curBasis = currentCostBasis thisExisting otherAsset;
                    curImb = currentImbalance thisExisting otherAsset;
                    newBasis = newCostBasis thisExisting otherAsset newQuantity newAvgPrice;
                    newImb = newImbalance thisExisting otherAsset newQuantity
                in if newBasis \<ge> ARB_MAX_COST_BASIS \<and> curBasis < ARB_MAX_COST_BASIS
                   then \<lparr>ok = False, reason = PushCostBasis,
                         costBasis = newBasis, imbalance = newImb\<rparr>
                   else if newImb > curImb \<and> newImb > ARB_MAX_IMBALANCE
                   then \<lparr>ok = False, reason = WorsenImbalance,
                         costBasis = newBasis, imbalance = newImb\<rparr>
                   else \<lparr>ok = True,
                         reason = (if newImb < curImb then ImprovesBalance
                                   else if newBasis < curBasis then ImprovesCostBasis
                                   else ReasonOK),
                         costBasis = newBasis, imbalance = newImb\<rparr>,
          trackers'))"

section \<open>Aggregation buffer\<close>

definition MIN_TOKENS_FOR_ORDER :: number where
  "MIN_TOKENS_FOR_ORDER = Finite 5"

text \<open>
  A trade event as the executor reads it (\<^verbatim>\<open>TradeWithUser\<close>): the fields of the activity
  record that the engine uses, the address of the trader it was read for, and the size the
  sizing policy gave it, when it has been scaled.
\<close>

record TradeWithUser =
  trade_id :: string
  trade_userAddress :: string
  trade_conditionId :: string
  trade_asset :: string
  trade_side :: "string option"
  trade_slug :: "string option"
  trade_eventSlug :: "string option"
  trade_usdcSize :: number
  trade_price :: number
  trade_size :: number
  trade_scaledUsdcSize :: "number option"

record AggregatedTrade =
  agg_userAddress :: string
  agg_conditionId :: string
  agg_asset :: string
  agg_side :: string
  agg_slug :: "string option"
  agg_eventSlug :: "string option"
  trades :: "TradeWithUser list"
  totalRawUsdcSize :: number
  totalScaledUsdcSize :: number
  averagePrice :: number
  firstTradeTime :: int
  lastTradeTime :: int

text \<open>
  The buffer is a \<^verbatim>\<open>Map\<close> from key to accumulator, read in insertion order by
  \<^verbatim>\<open>getReadyAggregations\<close>: an association list, as the sides of a tracker are.
\<close>

type_synonym aggregationBuffer = "(string \<times> AggregatedTrade) list"

definition getAggregationKey :: "TradeWithUser \<Rightarrow> string" where
  "getAggregationKey trade =
     trade_userAddress trade @ '':'' @ trade_conditionId trade @ '':'' @ trade_asset trade"

text \<open>\<^verbatim>\<open>Date.now()\<close> is the argument \<open>now\<close>.\<close>

definition addToAggregationBuffer ::
  "aggregationBuffer \<Rightarrow> TradeWithUser \<Rightarrow> int \<Rightarrow> aggregationBuffer" where
  "addToAggregationBuffer buffer trade now =
     (let key = getAggregationKey trade;
          scaledSize = (case trade_scaledUsdcSize trade of
                          None \<Rightarrow> trade_usdcSize trade | Some s \<Rightarrow> s)
      in case map_of buffer key of
           Some existing \<Rightarrow>
             let trades' = trades existing @ [trade];
                 raw = totalRawUsdcSize existing + trade_usdcSize trade;
                 totalValue = foldl (\<lambda>sum t. sum + trade_usdcSize t * trade_price t) (Finite 0)
                                trades'
             in AList.update key
                  (existing\<lparr>trades := trades',
                            totalRawUsdcSize := raw,
                            totalScaledUsdcSize := totalScaledUsdcSize existing + scaledSize,
                            averagePrice := totalValue / raw,
                            lastTradeTime := now\<rparr>) buffer
         | None \<Rightarrow>
             AList.update key
               \<lparr>agg_userAddress = trade_userAddress trade,
                agg_conditionId = trade_conditionId trade,
                agg_asset = trade_asset trade,
                agg_side = (if truthy (trade_side trade) then the (trade_side trade) else ''BUY''),
                agg_slug = trade_slug trade,
                agg_eventSlug = trade_eventSlug trade,
                trades = [trade],
                totalRawUsdcSize = trade_usdcSize trade,
                totalScaledUsdcSize = scaledSize,
                averagePrice = trade_price trade,
                firstTradeTime = now,
                lastTradeTime = now\<rparr> buffer)"

text \<open>
  The token total that \<^verbatim>\<open>getReadyAggregations\<close> derives for an accumulator:
  \<^verbatim>\<open>agg.averagePrice > 0 ? agg.totalScaledUsdcSize / agg.averagePrice : 0\<close>.
\<close>

definition totalTokens :: "AggregatedTrade \<Rightarrow> number" where
  "totalTokens agg =
     (if averagePrice agg > Finite 0 then totalScaledUsdcSize agg / averagePrice agg
      else Finite 0)"

text \<open>
  The loop of \<^verbatim>\<open>getReadyAggregations\<close> over the entries; its state is the list
  \<^verbatim>\<open>ready\<close> and the buffer. Deleting the entry under the iterator leaves the entries
  still to come in place, so the loop runs over the entries the buffer had at the start.
\<close>

fun readyLoop ::
  "(string \<times> AggregatedTrade) list \<Rightarrow> AggregatedTrade list \<times> aggregationBuffer
     \<Rightarrow> AggregatedTrade list \<times> aggregationBuffer" where
  "readyLoop [] st = st"
| "readyLoop ((key, agg) # rest) (ready, buffer) =
     (if totalTokens agg \<ge> MIN_TOKENS_FOR_ORDER
      then readyLoop rest (ready @ [agg], AList.delete key buffer)
      else readyLoop rest (ready, buffer))"

definition getReadyAggregations ::
  "aggregationBuffer \<Rightarrow> AggregatedTrade list \<times> aggregationBuffer" where
  "getReadyAggregations buffer = readyLoop buffer ([], buffer)"


section \<open>The order executor: data\<close>

definition MIN_ORDER_SIZE_USD :: number where
  "MIN_ORDER_SIZE_USD = binary64 (10 / 100)"

definition MIN_ORDER_SIZE_TOKENS :: number where
  "MIN_ORDER_SIZE_TOKENS = binary64 (10 / 100)"

text \<open>
  An order book as the client returns it, the decimal strings of each level already read
  with \<^verbatim>\<open>parseFloat\<close> (a string that is no number reads as \<^verbatim>\<open>NaN\<close>); a missing list
  is the empty list. The levels are in no order.
\<close>

record bookEntry =
  entry_price :: number
  entry_size :: number

record orderBook =
  bids :: "bookEntry list"
  asks :: "bookEntry list"

record UserPosition =
  pos_asset :: string
  pos_conditionId :: string
  pos_size :: number
  pos_avgPrice :: number

text \<open>
  The response to a posted order is a JSON object. \<^verbatim>\<open>extractOrderError\<close> looks into a
  value of any shape, so JSON values are modelled in full.
\<close>

datatype jsval =
  JUndefined | JNull | JBool bool | JNum number | JString string | JObject "(string \<times> jsval) list"

text \<open>Reading a property of an object: \<^verbatim>\<open>undefined\<close> when it has none of that name.\<close>

definition field :: "(string \<times> jsval) list \<Rightarrow> string \<Rightarrow> jsval" where
  "field data k = (case map_of data k of None \<Rightarrow> JUndefined | Some v \<Rightarrow> v)"

fun falsy :: "jsval \<Rightarrow> bool" where
  "falsy JUndefined = True"
| "falsy JNull = True"
| "falsy (JBool b) = (\<not> b)"
| "falsy (JNum x) = (x = Finite 0 \<or> x = NaN)"
| "falsy (JString s) = (s = [])"
| "falsy (JObject data) = False"

definition topLevelMessage :: "(string \<times> jsval) list \<Rightarrow> string option" where
  "topLevelMessage data =
     (case field data ''errorMsg'' of
        JString s \<Rightarrow> Some s
      | _ \<Rightarrow> (case field data ''message'' of JString s \<Rightarrow> Some s | _ \<Rightarrow> None))"

definition extractOrderError :: "jsval \<Rightarrow> string option" where
  "extractOrderError response =
     (if falsy response then None
      else case response of
             JString s \<Rightarrow> Some s
           | JObject data \<Rightarrow>
               (case field data ''error'' of
                  JString s \<Rightarrow> Some s
                | JObject nested \<Rightarrow>
                    (case field nested ''error'' of
                       JString s \<Rightarrow> Some s
                     | _ \<Rightarrow> (case field nested ''message'' of
                               JString s \<Rightarrow> Some s
                             | _ \<Rightarrow> topLevelMessage data))
                | _ \<Rightarrow> topLevelMessage data)
           | _ \<Rightarrow> None)"

text \<open>
  Strings are lists of characters; \<^verbatim>\<open>toLowerCase\<close> is modelled on the ASCII letters and
  \<^verbatim>\<open>includes\<close> is the test for a contiguous sublist.
\<close>

definition toLowerChar :: "char \<Rightarrow> char" where
  "toLowerChar c =
     (let n = (of_char c :: nat) in if 65 \<le> n \<and> n \<le> 90 then char_of (n + 32) else c)"

definition toLowerCase :: "string \<Rightarrow> string" where
  "toLowerCase s = map toLowerChar s"

definition str_includes :: "string \<Rightarrow> string \<Rightarrow> bool" where
  "str_includes s needle = sublist needle s"

definition isInsufficientBalanceOrAllowanceError :: "string option \<Rightarrow> bool" where
  "isInsufficientBalanceOrAllowanceError message =
     (case message of
        None \<Rightarrow> False
      | Some m \<Rightarrow>
          if m = [] then False
          else let lower = toLowerCase m
               in str_includes lower ''not enough balance'' \<or> str_includes lower ''allowance'')"

datatype side = BUY | SELL

datatype orderType = FOK | GTC

text \<open>
  The arguments handed to the client: \<^verbatim>\<open>createMarketOrder\<close> takes an amount,
  \<^verbatim>\<open>createOrder\<close> a size.
\<close>

datatype order =
  MarketOrder (o_side: side) (o_tokenID: string) (o_amount: number) (o_price: number)
| LimitOrder (o_side: side) (o_tokenID: string) (o_size: number) (o_price: number)

text \<open>
  What came back for an order: the response object, or (in the BUY branch, which catches
  it) an exception of the client with its message.
\<close>

datatype outcome = Responded "(string \<times> jsval) list" | Threw string

record submission =
  sub_order :: order
  sub_type :: orderType
  sub_outcome :: outcome

text \<open>
  A write to the trade's record in the activity store: \<^verbatim>\<open>bot\<close>, and the annotations
  \<^verbatim>\<open>botExcutedTime\<close> and \<^verbatim>\<open>myBoughtSize\<close> when the write sets them.
\<close>

record update =
  upd_bot :: bool
  upd_botExcutedTime :: "nat option"
  upd_myBoughtSize :: "number option"

definition processed :: update where
  "processed = \<lparr>upd_bot = True, upd_botExcutedTime = None, upd_myBoughtSize = None\<rparr>"

definition orderSucceeded :: "(string \<times> jsval) list \<Rightarrow> bool" where
  "orderSucceeded resp = (field resp ''success'' = JBool True)"

text \<open>
  A response that makes the engine give the trade up for lack of funds: not a success, and
  its error message names the balance or the allowance.
\<close>

definition fundsFailure :: "outcome \<Rightarrow> bool" where
  "fundsFailure out =
     (case out of
        Responded resp \<Rightarrow> \<not> orderSucceeded resp
           \<and> isInsufficientBalanceOrAllowanceError (extractOrderError (JObject resp))
      | Threw msg \<Rightarrow> False)"

section \<open>The order executor: the three loops\<close>

text \<open>
  The exchange is modelled by its answers: the order book a pass fetches and the response
  to the order it posts. An exception thrown by the client is an answer in the BUY branch,
  which catches it; in the MERGE and SELL branches it would leave \<^verbatim>\<open>postOrder\<close> and is
  outside the model. The waits before a retry and the log output are not modelled.
\<close>

text \<open>
  The variables of a loop of \<^verbatim>\<open>postOrder\<close>, with what it has done so far: the orders
  handed to the client with their outcomes, and the writes to the trade's record.
  \<^verbatim>\<open>totalFilled\<close> is \<^verbatim>\<open>totalBoughtTokens\<close> in the BUY branch and
  \<^verbatim>\<open>totalSoldTokens\<close> in the SELL branch.
\<close>

record loopState =
  remaining :: number
  retry :: nat
  abortDueToFunds :: bool
  totalFilled :: number
  submitted :: "submission list"
  updates :: "update list"

definition initState :: "number \<Rightarrow> loopState" where
  "initState r = \<lparr>remaining = r, retry = 0, abortDueToFunds = False, totalFilled = Finite 0,
                  submitted = [], updates = []\<rparr>"

definition writeUpdate :: "update \<Rightarrow> loopState \<Rightarrow> loopState" where
  "writeUpdate u st = st\<lparr>updates := updates st @ [u]\<rparr>"

definition submit :: "order \<Rightarrow> orderType \<Rightarrow> outcome \<Rightarrow> loopState \<Rightarrow> loopState" where
  "submit ord ty out st =
     st\<lparr>submitted := submitted st @ [\<lparr>sub_order = ord, sub_type = ty, sub_outcome = out\<rparr>]\<rparr>"

text \<open>One pass through a loop body ends at the loop test again or leaves the loop.\<close>

datatype step = Continue loopState | Break loopState

text \<open>
  \<^verbatim>\<open>while (remaining > 0 && retry < RETRY_LIMIT)\<close>, the head of all three loops. Each
  pass reads one event: what the exchange answers in that pass (the order book, and the
  outcome of the order if the pass posts one). The events are the fuel: a run that would
  go on after the last event has no result.
\<close>

fun runLoop :: "nat \<Rightarrow> ('e \<Rightarrow> loopState \<Rightarrow> step) \<Rightarrow> 'e list \<Rightarrow> loopState \<Rightarrow> loopState option" where
  "runLoop RETRY_LIMIT body [] st =
     (if remaining st > Finite 0 \<and> retry st < RETRY_LIMIT then None else Some st)"
| "runLoop RETRY_LIMIT body (ev # evs) st =
     (if remaining st > Finite 0 \<and> retry st < RETRY_LIMIT
      then (case body ev st of
              Continue st' \<Rightarrow> runLoop RETRY_LIMIT body evs st'
            | Break st' \<Rightarrow> Some st')
      else Some st)"

text \<open>
  \<^verbatim>\<open>bids.reduce((max, bid) => bid.price > max.price ? bid : max, bids[0])\<close> and its mirror
  image for the asks, on a list whose first element is \<open>b\<close>.
\<close>

definition maxPriceBid :: "bookEntry \<Rightarrow> bookEntry list \<Rightarrow> bookEntry" where
  "maxPriceBid b bs =
     foldl (\<lambda>mx bid. if entry_price bid > entry_price mx then bid else mx) b (b # bs)"

definition minPriceAsk :: "bookEntry \<Rightarrow> bookEntry list \<Rightarrow> bookEntry" where
  "minPriceAsk a as =
     foldl (\<lambda>mn ask. if entry_price ask < entry_price mn then ask else mn) a (a # as)"

subsection \<open>MERGE\<close>

text \<open>
  The order of one pass: \<^verbatim>\<open>order_arges\<close>, for the remaining quantity and the best bid.
\<close>

definition mergeOrder :: "string \<Rightarrow> number \<Rightarrow> bookEntry \<Rightarrow> order" where
  "mergeOrder tokenID rem best =
     (if rem \<le> entry_size best
      then MarketOrder SELL tokenID (roundTokens rem) (roundPrice (entry_price best))
      else MarketOrder SELL tokenID (roundTokens (entry_size best))
             (roundPrice (entry_price best)))"

definition mergeStep :: "string \<Rightarrow> orderBook \<times> (string \<times> jsval) list \<Rightarrow> loopState \<Rightarrow> step" where
  "mergeStep tokenID ev st =
     (case bids (fst ev) of
        [] \<Rightarrow> Break (writeUpdate processed st)
      | b # bs \<Rightarrow>
          let order_arges = mergeOrder tokenID (remaining st) (maxPriceBid b bs);
              st1 = submit order_arges GTC (Responded (snd ev)) st
          in if orderSucceeded (snd ev)
             then Continue (st1\<lparr>retry := 0,
                                remaining := remaining st - o_amount order_arges\<rparr>)
             else if isInsufficientBalanceOrAllowanceError (extractOrderError (JObject (snd ev)))
             then Break (st1\<lparr>abortDueToFunds := True\<rparr>)
             else Continue (st1\<lparr>retry := retry st + 1\<rparr>))"

text \<open>The writes after the loop, in the MERGE and SELL branches.\<close>

definition finishSell :: "nat \<Rightarrow> loopState \<Rightarrow> loopState" where
  "finishSell RETRY_LIMIT st =
     (if abortDueToFunds st
      then writeUpdate \<lparr>upd_bot = True, upd_botExcutedTime = Some RETRY_LIMIT,
                        upd_myBoughtSize = None\<rparr> st
      else if retry st \<ge> RETRY_LIMIT
      then writeUpdate \<lparr>upd_bot = True, upd_botExcutedTime = Some (retry st),
                        upd_myBoughtSize = None\<rparr> st
      else writeUpdate processed st)"

definition postOrder_merge ::
  "nat \<Rightarrow> UserPosition option \<Rightarrow> (orderBook \<times> (string \<times> jsval) list) list \<Rightarrow> loopState option" where
  "postOrder_merge RETRY_LIMIT my_position evs =
     (case my_position of
        None \<Rightarrow> Some (writeUpdate processed (initState (Finite 0)))
      | Some p \<Rightarrow>
          let rem = roundTokens (pos_size p)
          in if rem < MIN_ORDER_SIZE_TOKENS then Some (writeUpdate processed (initState rem))
             else map_option (finishSell RETRY_LIMIT)
                    (runLoop RETRY_LIMIT (mergeStep (pos_asset p)) evs (initState rem)))"

subsection \<open>SELL\<close>

text \<open>
  The quantity to sell before the minimum and the cap are applied. \<^verbatim>\<open>totalBoughtTokens\<close>
  is the sum of \<^verbatim>\<open>myBoughtSize || 0\<close> over the earlier purchases the store returns;
  \<open>multiplier\<close> is the value of \<^verbatim>\<open>getTradeMultiplier(COPY_STRATEGY_CONFIG, trade.usdcSize)\<close>,
  a function of the strategy configuration that is not among the sources.
\<close>

definition totalBoughtTokens :: "(string \<times> number) list \<Rightarrow> number" where
  "totalBoughtTokens previousBuys =
     foldl (\<lambda>sum buy. sum + orZero (snd buy)) (Finite 0) previousBuys"

definition sellRemaining ::
  "UserPosition \<Rightarrow> UserPosition option \<Rightarrow> TradeWithUser \<Rightarrow> number \<Rightarrow> number \<Rightarrow> number" where
  "sellRemaining my_position user_position trade bought multiplier =
     (case user_position of
        None \<Rightarrow> roundTokens (pos_size my_position)
      | Some up \<Rightarrow>
          let trader_sell_percent = trade_size trade / (pos_size up + trade_size trade);
              baseSellSize = (if bought > Finite 0 then bought * trader_sell_percent
                              else pos_size my_position * trader_sell_percent)
          in roundTokens (baseSellSize * multiplier))"

text \<open>
  The quantity the SELL loop starts with: none when the computed quantity is under the
  minimum (the trade is marked processed and nothing is sold), else the computed quantity
  capped at the position held.
\<close>

definition sellQuantity ::
  "UserPosition \<Rightarrow> UserPosition option \<Rightarrow> TradeWithUser \<Rightarrow> number \<Rightarrow> number
     \<Rightarrow> number option" where
  "sellQuantity my_position user_position trade bought multiplier =
     (let rem = sellRemaining my_position user_position trade bought multiplier
      in if rem < MIN_ORDER_SIZE_TOKENS then None
         else if rem > pos_size my_position then Some (roundTokens (pos_size my_position))
         else Some rem)"

definition sellStep :: "string \<Rightarrow> orderBook \<times> (string \<times> jsval) list \<Rightarrow> loopState \<Rightarrow> step" where
  "sellStep tokenID ev st =
     (case bids (fst ev) of
        [] \<Rightarrow> Break (writeUpdate processed st)
      | b # bs \<Rightarrow>
          if remaining st < MIN_ORDER_SIZE_TOKENS then Break (writeUpdate processed st)
          else
            let best = maxPriceBid b bs;
                sellAmount = roundTokens (Math_min (remaining st) (entry_size best))
            in if sellAmount < MIN_ORDER_SIZE_TOKENS then Break (writeUpdate processed st)
               else
                 let order_arges = MarketOrder SELL tokenID sellAmount
                                     (roundPrice (entry_price best));
                     st1 = submit order_arges GTC (Responded (snd ev)) st
                 in if orderSucceeded (snd ev)
                    then Continue (st1\<lparr>retry := 0,
                                       totalFilled := totalFilled st + sellAmount,
                                       remaining := remaining st - sellAmount\<rparr>)
                    else if isInsufficientBalanceOrAllowanceError
                              (extractOrderError (JObject (snd ev)))
                    then Break (st1\<lparr>abortDueToFunds := True\<rparr>)
                    else Continue (st1\<lparr>retry := retry st + 1\<rparr>))"

text \<open>
  The tracked purchases after the sale: cleared when at least 99% of the tracked quantity
  was sold, scaled down by the share sold otherwise.
\<close>

definition decayTracked ::
  "(string \<times> number) list \<Rightarrow> number \<Rightarrow> (string \<times> number) list" where
  "decayTracked previousBuys totalSoldTokens =
     (let bought = totalBoughtTokens previousBuys
      in if totalSoldTokens > Finite 0 \<and> bought > Finite 0
         then (let sellPercentage = totalSoldTokens / bought
               in if sellPercentage \<ge> binary64 (99 / 100)
                  then map (\<lambda>buy. (fst buy, Finite 0)) previousBuys
                  else map (\<lambda>buy. (fst buy, orZero (snd buy) * (Finite 1 - sellPercentage)))
                         previousBuys)
         else previousBuys)"

definition postOrder_sell ::
  "nat \<Rightarrow> UserPosition option \<Rightarrow> UserPosition option \<Rightarrow> TradeWithUser
     \<Rightarrow> (string \<times> number) list \<Rightarrow> number \<Rightarrow> (orderBook \<times> (string \<times> jsval) list) list
     \<Rightarrow> (loopState \<times> (string \<times> number) list) option" where
  "postOrder_sell RETRY_LIMIT my_position user_position trade previousBuys multiplier evs =
     (case my_position of
        None \<Rightarrow> Some (writeUpdate processed (initState (Finite 0)), previousBuys)
      | Some p \<Rightarrow>
          (case sellQuantity p user_position trade (totalBoughtTokens previousBuys) multiplier of
             None \<Rightarrow> Some (writeUpdate processed (initState (Finite 0)), previousBuys)
           | Some rem \<Rightarrow>
               map_option
                 (\<lambda>st. (finishSell RETRY_LIMIT st, decayTracked previousBuys (totalFilled st)))
                 (runLoop RETRY_LIMIT (sellStep (trade_asset trade)) evs (initState rem))))"

subsection \<open>BUY\<close>

text \<open>The order style and the price of one pass, or that the clip is too small.\<close>

datatype orderStyle = UseFOK number | UseGTC number | TooSmall

definition selectOrderStyle :: "number \<Rightarrow> number \<Rightarrow> number \<Rightarrow> orderStyle" where
  "selectOrderStyle rem tradePrice askPrice =
     (let traderPrice = roundPrice tradePrice;
          bestAskPrice = roundPrice askPrice;
          TAKER_MIN_TOKENS = Finite 5;
          MAKER_MIN_USD = Finite 1;
          approxTokens = rem / traderPrice;
          approxUsd = rem
      in if approxUsd \<ge> MAKER_MIN_USD then UseFOK bestAskPrice
         else if approxTokens \<ge> TAKER_MIN_TOKENS
         then (let buffer = Math_max (binary64 (1 / 100)) (bestAskPrice * binary64 (2 / 100));
                   makerPrice = roundPrice (bestAskPrice - buffer);
                   price = Math_min traderPrice makerPrice
               in UseGTC (if price \<ge> bestAskPrice
                          then roundPrice (bestAskPrice - binary64 (1 / 100))
                          else price))
         else TooSmall)"

text \<open>
  The precision block: \<^verbatim>\<open>priceCents\<close>, \<^verbatim>\<open>finalPrice\<close>, and the USD amount and token
  quantity of a Fill-Or-Kill order or of a Good-Til-Cancelled one.
\<close>

record sizedOrder =
  finalPrice :: number
  finalTokens :: number
  finalUsdCost :: number

definition precisionBlock :: "bool \<Rightarrow> number \<Rightarrow> number \<Rightarrow> sizedOrder" where
  "precisionBlock useFOK rem price =
     (let priceCents = Math_round (price * Finite 100);
          finalPrice = toFixedParsed (priceCents / Finite 100) 2
      in if useFOK
         then (let usdCents = Math_floor (rem * Finite 100);
                   finalUsdCost = toFixedParsed (usdCents / Finite 100) 2;
                   tokensRaw = finalUsdCost / finalPrice;
                   tokensTenThousandths = Math_floor (tokensRaw * Finite 10000)
               in \<lparr>finalPrice = finalPrice,
                   finalTokens = toFixedParsed (tokensTenThousandths / Finite 10000) 4,
                   finalUsdCost = finalUsdCost\<rparr>)
         else (let tokensCents = Math_floor (rem * Finite 10000 / priceCents);
                   usdTenThousandths = tokensCents * priceCents
               in \<lparr>finalPrice = finalPrice,
                   finalTokens = toFixedParsed (tokensCents / Finite 100) 2,
                   finalUsdCost = toFixedParsed (usdTenThousandths / Finite 10000) 4\<rparr>))"

text \<open>
  The order a pass builds from the result of the two blocks: a market order for the USD
  amount, posted Fill-Or-Kill, or a limit order for the token quantity, posted
  Good-Til-Cancelled.
\<close>

definition buyOrder :: "string \<Rightarrow> bool \<Rightarrow> sizedOrder \<Rightarrow> order \<times> orderType" where
  "buyOrder tokenID useFOK s =
     (if useFOK then (MarketOrder BUY tokenID (finalUsdCost s) (finalPrice s), FOK)
      else (LimitOrder BUY tokenID (finalTokens s) (finalPrice s), GTC))"

definition isSizeMinError :: "string option \<Rightarrow> bool" where
  "isSizeMinError errorMessage =
     (case errorMessage of None \<Rightarrow> False
      | Some m \<Rightarrow> str_includes m ''lower than the minimum: 5'')"

definition isDecimalError :: "string option \<Rightarrow> bool" where
  "isDecimalError errorMessage =
     (case errorMessage of None \<Rightarrow> False
      | Some m \<Rightarrow> str_includes m ''decimal'' \<or> str_includes m ''accuracy'')"

text \<open>
  What the loop does with the outcome of a posted order. The waits before a retry are not
  modelled, so the branches that differ only in how long they wait are one branch.
\<close>

definition buyOutcome :: "sizedOrder \<Rightarrow> outcome \<Rightarrow> loopState \<Rightarrow> loopState \<Rightarrow> step" where
  "buyOutcome s out st st1 =
     (case out of
        Threw errMsg \<Rightarrow> Continue (st1\<lparr>retry := retry st + 1\<rparr>)
      | Responded resp \<Rightarrow>
          if orderSucceeded resp
          then Continue (st1\<lparr>retry := 0,
                             totalFilled := totalFilled st + finalTokens s,
                             remaining := remaining st - finalUsdCost s\<rparr>)
          else
            let errorMessage = extractOrderError (JObject resp)
            in if isInsufficientBalanceOrAllowanceError errorMessage
               then Break (st1\<lparr>abortDueToFunds := True\<rparr>)
               else if isSizeMinError errorMessage then Break (writeUpdate processed st1)
               else if isDecimalError errorMessage then Break (writeUpdate processed st1)
               else Continue (st1\<lparr>retry := retry st + 1\<rparr>))"

definition boughtSoFar :: "loopState \<Rightarrow> update" where
  "boughtSoFar st = \<lparr>upd_bot = True, upd_botExcutedTime = None,
                      upd_myBoughtSize = Some (totalFilled st)\<rparr>"

text \<open>
  The rest of a pass once the order style is chosen: the precision block, the test for a
  token quantity of zero, the order and what follows from its outcome.
\<close>

definition placeOrder :: "string \<Rightarrow> bool \<Rightarrow> number \<Rightarrow> outcome \<Rightarrow> loopState \<Rightarrow> step" where
  "placeOrder tokenID useFOK price out st =
     (let s = precisionBlock useFOK (remaining st) price
      in if finalTokens s = Finite 0 then Break (writeUpdate (boughtSoFar st) st)
         else let (order_args, orderType) = buyOrder tokenID useFOK s
              in buyOutcome s out st (submit order_args orderType out st))"

definition buyStep :: "bool \<Rightarrow> TradeWithUser \<Rightarrow> orderBook \<times> outcome \<Rightarrow> loopState \<Rightarrow> step" where
  "buyStep SKIP_SLIPPAGE_CHECK trade ev st =
     (case asks (fst ev) of
        [] \<Rightarrow> Break (writeUpdate processed st)
      | a # as \<Rightarrow>
          let best = minPriceAsk a as;
              maxAcceptablePrice = trade_price trade * binary64 (110 / 100)
          in if \<not> SKIP_SLIPPAGE_CHECK \<and> entry_price best > maxAcceptablePrice
             then Break (writeUpdate processed st)
             else if remaining st < MIN_ORDER_SIZE_USD
             then Break (writeUpdate (boughtSoFar st) st)
             else
               (case selectOrderStyle (remaining st) (trade_price trade) (entry_price best) of
                  TooSmall \<Rightarrow> Break (writeUpdate processed st)
                | UseFOK price \<Rightarrow> placeOrder (trade_asset trade) True price (snd ev) st
                | UseGTC price \<Rightarrow> placeOrder (trade_asset trade) False price (snd ev) st))"

definition finishBuy :: "nat \<Rightarrow> loopState \<Rightarrow> loopState" where
  "finishBuy RETRY_LIMIT st =
     (if abortDueToFunds st
      then writeUpdate \<lparr>upd_bot = True, upd_botExcutedTime = Some RETRY_LIMIT,
                        upd_myBoughtSize = Some (totalFilled st)\<rparr> st
      else if retry st \<ge> RETRY_LIMIT
      then writeUpdate \<lparr>upd_bot = True, upd_botExcutedTime = Some (retry st),
                        upd_myBoughtSize = Some (totalFilled st)\<rparr> st
      else writeUpdate (boughtSoFar st) st)"

text \<open>
  The amount to buy: the pre-scaled amount of an aggregated trade, or the result of
  \<^verbatim>\<open>calculateOrderSize\<close> (a function of the strategy configuration that is not among the
  sources; \<open>orderCalc\<close> is what it returned: \<^verbatim>\<open>belowMinimum\<close> and \<^verbatim>\<open>finalAmount\<close>).
\<close>

definition postOrder_buy ::
  "nat \<Rightarrow> bool \<Rightarrow> TradeWithUser \<Rightarrow> number option \<Rightarrow> bool \<times> number
     \<Rightarrow> (orderBook \<times> outcome) list \<Rightarrow> loopState option" where
  "postOrder_buy RETRY_LIMIT SKIP_SLIPPAGE_CHECK trade preScaledAmount orderCalc evs =
     (case preScaledAmount of
        Some amount \<Rightarrow>
          map_option (finishBuy RETRY_LIMIT)
            (runLoop RETRY_LIMIT (buyStep SKIP_SLIPPAGE_CHECK trade) evs
               (initState (roundAmount amount)))
      | None \<Rightarrow>
          if fst orderCalc then Some (writeUpdate processed (initState (Finite 0)))
          else map_option (finishBuy RETRY_LIMIT)
                 (runLoop RETRY_LIMIT (buyStep SKIP_SLIPPAGE_CHECK trade) evs
                    (initState (roundAmount (snd orderCalc)))))"

text \<open>The state a pass ends in, whichever way it ends.\<close>

definition stepState :: "step \<Rightarrow> loopState" where
  "stepState s = (case s of Continue st \<Rightarrow> st | Break st \<Rightarrow> st)"

text \<open>
  Predicates on what a loop has posted: none of the outcomes is a funds failure; or the
  loop gave up for lack of funds, the outcome of the last order posted is a funds failure
  and no outcome before it is one.
\<close>

definition fundsFree :: "submission list \<Rightarrow> bool" where
  "fundsFree subs = list_all (\<lambda>s. \<not> fundsFailure (sub_outcome s)) subs"

definition abortedOnLast :: "loopState \<Rightarrow> bool" where
  "abortedOnLast st =
     (if abortDueToFunds st
      then submitted st \<noteq> [] \<and> fundsFailure (sub_outcome (last (submitted st)))
           \<and> fundsFree (butlast (submitted st))
      else fundsFree (submitted st))"

text \<open>
  The invariant of the three loops for the funds rule: the loop has not given up for lack
  of funds and no outcome so far is a funds failure.
\<close>

definition loopInv :: "loopState \<Rightarrow> bool" where
  "loopInv st = (\<not> abortDueToFunds st \<and> fundsFree (submitted st))"
section \<open>Example states\<close>

text \<open>
  Concrete market states and inputs, used to instantiate the theorems. A market with YES at
  10 tokens for 4 USD and NO at 5 tokens for 2.50 USD; a market with NO at 10 tokens for
  4.50 USD.
\<close>

definition ex_yes :: AssetExecution where
  "ex_yes = \<lparr>asset = ''YES'', quantity = Finite 10, totalCost = Finite 4,
             avgPrice = binary64 (4 / 10)\<rparr>"

definition ex_no :: AssetExecution where
  "ex_no = \<lparr>asset = ''NO'', quantity = Finite 5, totalCost = Finite (5 / 2),
            avgPrice = Finite (1 / 2)\<rparr>"

definition ex_trackers :: marketTrackers where
  "ex_trackers = Map.empty(''m1'' \<mapsto>
      \<lparr>conditionId = ''m1'', slug = None, assets = [(''YES'', ex_yes), (''NO'', ex_no)]\<rparr>)"

definition ex_no45 :: AssetExecution where
  "ex_no45 = \<lparr>asset = ''NO'', quantity = Finite 10, totalCost = Finite (9 / 2),
              avgPrice = binary64 (45 / 100)\<rparr>"

definition ex_trackers2 :: marketTrackers where
  "ex_trackers2 = Map.empty(''m2'' \<mapsto>
      \<lparr>conditionId = ''m2'', slug = None, assets = [(''NO'', ex_no45)]\<rparr>)"

text \<open>
  A market as the trade executor records it, the quantity of an execution being its USD
  size over its price: NO bought for 23.40 USD at 0.65, then YES for 5.40 USD at 0.30.
\<close>

definition ex_trackers3 :: marketTrackers where
  "ex_trackers3 =
     recordExecution
       (recordExecution Map.empty ''m3'' ''NO''
          (binary64 (2340 / 100) / binary64 (65 / 100)) (binary64 (2340 / 100)) None)
       ''m3'' ''YES'' (binary64 (540 / 100) / binary64 (30 / 100)) (binary64 (540 / 100)) None"

text \<open>
  A buffer after four BUY events of one trader in one market: three on YES (scaled sizes
  0.80, 0.70 and 0.70 at price 0.40: 5.5 tokens) and one on NO (0.50 at 0.50: 1 token). And
  a buffer with one event of scaled size 0.35 at price 0.07.
\<close>

definition ex_trade :: "string \<Rightarrow> string \<Rightarrow> number \<Rightarrow> number \<Rightarrow> number \<Rightarrow> TradeWithUser" where
  "ex_trade tid ast usdc p scaled =
     \<lparr>trade_id = tid, trade_userAddress = ''0xT'', trade_conditionId = ''m1'',
      trade_asset = ast, trade_side = Some ''BUY'', trade_slug = None, trade_eventSlug = None,
      trade_usdcSize = usdc, trade_price = p, trade_size = usdc / p,
      trade_scaledUsdcSize = Some scaled\<rparr>"


definition ex_buffer_threshold :: aggregationBuffer where
  "ex_buffer_threshold =
     addToAggregationBuffer []
       (ex_trade ''t5'' ''YES'' (binary64 (35 / 10)) (binary64 (7 / 100)) (binary64 (35 / 100))) 500"

text \<open>
  An order book with two bids and two asks, neither list sorted; a book whose only bid has
  size 0; books with a single bid of 10 and of 5 tokens at 0.50 and with a single ask at
  0.58, at 0.50, at 0.11 and at 0.005. A response that reports success, one that reports a
  lack of funds and one that refuses the order for another reason.
\<close>

definition ex_book :: orderBook where
  "ex_book = \<lparr>bids = [\<lparr>entry_price = binary64 (50 / 100), entry_size = Finite 10\<rparr>,
                      \<lparr>entry_price = binary64 (52 / 100), entry_size = Finite 10\<rparr>],
              asks = [\<lparr>entry_price = binary64 (55 / 100), entry_size = Finite 30\<rparr>,
                      \<lparr>entry_price = binary64 (53 / 100), entry_size = Finite 20\<rparr>]\<rparr>"

definition zero_book :: orderBook where
  "zero_book = \<lparr>bids = [\<lparr>entry_price = Finite (1 / 2), entry_size = Finite 0\<rparr>], asks = []\<rparr>"

definition bid_book :: "number \<Rightarrow> orderBook" where
  "bid_book sz = \<lparr>bids = [\<lparr>entry_price = Finite (1 / 2), entry_size = sz\<rparr>], asks = []\<rparr>"

definition ask_book :: "number \<Rightarrow> orderBook" where
  "ask_book price = \<lparr>bids = [], asks = [\<lparr>entry_price = price, entry_size = Finite 100\<rparr>]\<rparr>"

definition ex_success :: "(string \<times> jsval) list" where
  "ex_success = [(''success'', JBool True)]"

definition ex_funds_error :: "(string \<times> jsval) list" where
  "ex_funds_error = [(''success'', JBool False), (''error'', JString ''not enough balance / allowance'')]"

definition ex_refused :: "(string \<times> jsval) list" where
  "ex_refused = [(''success'', JBool False), (''errorMsg'', JString ''no match'')]"

text \<open>
  Positions of the controlled account (of 30, of 12.3456 and of 0.10289999999999999
  tokens), a SELL event of 40 tokens, and BUY events at the prices 0.58, 0.50, 0.10 and
  0.005.
\<close>

definition ex_position :: "number \<Rightarrow> UserPosition" where
  "ex_position sz = \<lparr>pos_asset = ''YES'', pos_conditionId = ''m1'', pos_size = sz,
                      pos_avgPrice = binary64 (4 / 10)\<rparr>"

definition ex_held :: UserPosition where
  "ex_held = ex_position (Finite 30)"

definition ex_held4 :: UserPosition where
  "ex_held4 = ex_position (binary64 (123456 / 10000))"

definition ex_dust :: UserPosition where
  "ex_dust = ex_position (binary64 (10289999999999999 / 100000000000000000))"

definition ex_sell_trade :: TradeWithUser where
  "ex_sell_trade =
     \<lparr>trade_id = ''t8'', trade_userAddress = ''0xT'', trade_conditionId = ''m1'',
      trade_asset = ''YES'', trade_side = Some ''SELL'', trade_slug = None,
      trade_eventSlug = None, trade_usdcSize = Finite 20, trade_price = Finite (1 / 2),
      trade_size = Finite 40, trade_scaledUsdcSize = None\<rparr>"

definition ex_buy_trade :: "number \<Rightarrow> TradeWithUser" where
  "ex_buy_trade price =
     \<lparr>trade_id = ''t9'', trade_userAddress = ''0xT'', trade_conditionId = ''m1'',
      trade_asset = ''YES'', trade_side = Some ''BUY'', trade_slug = None,
      trade_eventSlug = None, trade_usdcSize = Finite 8, trade_price = price,
      trade_size = Finite 8 / price, trade_scaledUsdcSize = None\<rparr>"

chapter \<open>The trade replication engine: theorems\<close>

section \<open>JavaScript numbers\<close>

subsection \<open>Comparisons\<close>


lemma number_le_less_trans: "a \<le> b \<Longrightarrow> b < c \<Longrightarrow> a < (c::number)"
  by (cases a; cases b; cases c) auto

lemma number_less_le_trans: "a < b \<Longrightarrow> b \<le> c \<Longrightarrow> a < (c::number)"
  by (cases a; cases b; cases c) auto

lemma number_less_trans: "a < b \<Longrightarrow> b < c \<Longrightarrow> a < (c::number)"
  by (cases a; cases b; cases c) auto

lemma number_less_asym: "a < b \<Longrightarrow> \<not> b < (a::number)"
  by (cases a; cases b) auto

lemma number_less_irrefl: "\<not> a < (a::number)"
  by (cases a) auto


lemma number_less_imp_le: "a < b \<Longrightarrow> a \<le> (b::number)"
  by (cases a; cases b) auto

lemma number_less_not_NaN: "a < b \<Longrightarrow> a \<noteq> NaN \<and> b \<noteq> NaN"
  by (cases a; cases b) auto

subsection \<open>The rounding function\<close>

text \<open>
  The exponent function finds the binade of its argument, and rounding moves a number by
  at most half a unit in the last place.
\<close>

lemma log2floor_bounds:
  "0 < n \<Longrightarrow> 2 ^ log2floor n \<le> n \<and> n < 2 ^ (log2floor n + 1)"
proof (induction n rule: log2floor.induct)
  case (1 n)
  show ?case
  proof (cases "n < 2")
    case True
    with "1.prems" have "n = 1" by simp
    then show ?thesis by (simp add: log2floor.simps)
  next
    case False
    then have "0 < n div 2" by simp
    with "1.IH" False have ih: "2 ^ log2floor (n div 2) \<le> n div 2"
      "n div 2 < 2 ^ (log2floor (n div 2) + 1)" by simp_all
    have eq: "log2floor n = Suc (log2floor (n div 2))"
      using False by (subst log2floor.simps) simp
    from ih(1) have "2 * 2 ^ log2floor (n div 2) \<le> n" by simp
    moreover from ih(2) have "n < 2 * 2 ^ (log2floor (n div 2) + 1)" by simp
    ultimately show ?thesis by (simp add: eq)
  qed
qed

lemma log2floor_bounds_real:
  assumes "0 < n"
  shows "(2::real) ^ log2floor n \<le> real n" "real n + 1 \<le> 2 ^ (log2floor n + 1)"
proof -
  from log2floor_bounds [OF assms]
  have b: "2 ^ log2floor n \<le> n" "Suc n \<le> 2 ^ (log2floor n + 1)" by simp_all
  from of_nat_mono [OF b(1), where 'a = real] show "(2::real) ^ log2floor n \<le> real n"
    by simp
  from of_nat_mono [OF b(2), where 'a = real] show "real n + 1 \<le> 2 ^ (log2floor n + 1)"
    by simp
qed

lemma ilog2_bounds_ge1:
  assumes "1 \<le> x"
  shows "pow2 (ilog2 x) \<le> x \<and> x < pow2 (ilog2 x + 1)"
proof -
  define n where "n = nat \<lfloor>x\<rfloor>"
  have fl: "real_of_int \<lfloor>x\<rfloor> \<le> x" "x < real_of_int \<lfloor>x\<rfloor> + 1" by linarith+
  from assms have "1 \<le> \<lfloor>x\<rfloor>" by simp
  then have n: "0 < n" "real n = real_of_int \<lfloor>x\<rfloor>"
    unfolding n_def by simp_all
  note b = log2floor_bounds_real [OF n(1)]
  have e: "ilog2 x = int (log2floor n)"
    using assms by (simp add: ilog2_def n_def)
  have p1: "pow2 (ilog2 x) = 2 ^ log2floor n"
    by (simp add: e pow2_def)
  have p2: "pow2 (ilog2 x + 1) = 2 ^ (log2floor n + 1)"
    by (simp add: e pow2_def nat_add_distrib)
  from b fl n(2) show ?thesis
    unfolding p1 p2 by linarith
qed

lemma ilog2_bounds_lt1:
  assumes "0 < x" "x < 1"
  shows "pow2 (ilog2 x) \<le> x \<and> x < pow2 (ilog2 x + 1)"
proof -
  define y where "y = 1 / x"
  define m where "m = nat (\<lceil>y\<rceil> - 1)"
  from assms have y: "1 < y" "0 < y" "x = 1 / y" unfolding y_def by simp_all
  have cl: "real_of_int \<lceil>y\<rceil> - 1 < y" "y \<le> real_of_int \<lceil>y\<rceil>" by linarith+
  from y(1) have "2 \<le> \<lceil>y\<rceil>" by linarith
  then have m: "0 < m" "real m = real_of_int \<lceil>y\<rceil> - 1"
    unfolding m_def by simp_all
  note b = log2floor_bounds_real [OF m(1)]
  have e: "ilog2 x = - int (log2floor m) - 1"
    using assms by (simp add: ilog2_def m_def y_def)
  have p1: "pow2 (ilog2 x) = 1 / 2 ^ (log2floor m + 1)"
    by (simp add: e pow2_def nat_add_distrib)
  have p2: "pow2 (ilog2 x + 1) = 1 / 2 ^ log2floor m"
    by (simp add: e pow2_def)
  from b(2) m(2) cl(2) have "y \<le> 2 ^ (log2floor m + 1)" by linarith
  with y(2) have 1: "1 / 2 ^ (log2floor m + 1) \<le> 1 / y"
    by (intro divide_left_mono) simp_all
  from b(1) m(2) cl(1) have "2 ^ log2floor m < y" by linarith
  then have 2: "1 / y < 1 / 2 ^ log2floor m"
    using y(2) by (intro divide_strict_left_mono) simp_all
  have x': "1 / y = x" using assms by (simp add: y_def)
  from 1 2 have "1 / 2 ^ (log2floor m + 1) \<le> x" "x < 1 / 2 ^ log2floor m"
    unfolding x' by simp_all
  then show ?thesis
    unfolding p1 p2 by simp
qed

lemma ilog2_bounds:
  "0 < x \<Longrightarrow> pow2 (ilog2 x) \<le> x \<and> x < pow2 (ilog2 x + 1)"
  using ilog2_bounds_ge1 [of x] ilog2_bounds_lt1 [of x] by linarith

lemma roundHalfEven_near: "\<bar>real_of_int (roundHalfEven y) - y\<bar> \<le> 1 / 2"
proof -
  have "real_of_int \<lfloor>y\<rfloor> \<le> y" "y < real_of_int \<lfloor>y\<rfloor> + 1" by linarith+
  then show ?thesis
    unfolding roundHalfEven_def Let_def
    by (simp split: if_splits)
qed

lemma pow2_pos: "0 < pow2 e"
  by (simp add: pow2_def)

text \<open>The rounded value is within half a unit in the last place of the exact one.\<close>

lemma binary64_near:
  assumes "binary64 x = Finite r" and "x \<noteq> 0" and "e = max (ilog2 \<bar>x\<bar>) (- 1022) - 52"
  shows "\<bar>r - x\<bar> \<le> pow2 e / 2"
proof -
  define q where "q = real_of_int (roundHalfEven (\<bar>x\<bar> / pow2 e))"
  from assms have r: "r = sgn x * q * pow2 e"
    by (simp add: binary64_def Let_def q_def split: if_splits)
  have "\<bar>q - \<bar>x\<bar> / pow2 e\<bar> \<le> 1 / 2"
    unfolding q_def by (rule roundHalfEven_near)
  then have "\<bar>q - \<bar>x\<bar> / pow2 e\<bar> * pow2 e \<le> 1 / 2 * pow2 e"
    using pow2_pos [of e] by (intro mult_right_mono) simp_all
  moreover have "\<bar>q - \<bar>x\<bar> / pow2 e\<bar> * pow2 e = \<bar>q * pow2 e - \<bar>x\<bar>\<bar>"
  proof -
    have "\<bar>q - \<bar>x\<bar> / pow2 e\<bar> * pow2 e = \<bar>(q - \<bar>x\<bar> / pow2 e) * pow2 e\<bar>"
      using pow2_pos [of e] by (simp add: abs_mult)
    also have "(q - \<bar>x\<bar> / pow2 e) * pow2 e = q * pow2 e - \<bar>x\<bar>"
      using pow2_pos [of e] by (simp add: left_diff_distrib)
    finally show ?thesis .
  qed
  ultimately have near: "\<bar>q * pow2 e - \<bar>x\<bar>\<bar> \<le> pow2 e / 2" by simp
  have "\<bar>r - x\<bar> = \<bar>q * pow2 e - \<bar>x\<bar>\<bar>"
  proof (cases "0 < x")
    case True
    then show ?thesis by (simp add: r)
  next
    case False
    with assms(2) have "x < 0" by simp
    then show ?thesis by (simp add: r abs_if)
  qed
  with near show ?thesis by simp
qed

text \<open>
  The rules that evaluate the rounding of a given rational number, and the numbers that
  round to themselves in the proofs below.
\<close>

lemmas b64 = binary64_def ilog2_def log2floor.simps pow2_def roundHalfEven_def Let_def

lemma binary64_small:
  "binary64 0 = Finite 0" "binary64 1 = Finite 1" "binary64 5 = Finite 5"
  "binary64 10 = Finite 10" "binary64 100 = Finite 100" "binary64 10000 = Finite 10000"
  by (simp_all add: b64)

section \<open>The flooring helpers\<close>

text \<open>
  Flooring as the specification words it never rounds up and is idempotent.
\<close>

lemma floorDecimals_le: "floorDecimals x d \<le> x"
proof -
  have "real_of_int \<lfloor>x * 10 ^ d\<rfloor> \<le> x * 10 ^ d"
    by (rule of_int_floor_le)
  then show ?thesis
    by (simp add: floorDecimals_def pos_divide_le_eq)
qed

lemma floorDecimals_idem: "floorDecimals (floorDecimals x d) d = floorDecimals x d"
  by (simp add: floorDecimals_def)

text \<open>
  The helper of the code at four numbers. The literals: 0.58, 0.57, 0.56, 0.1, 12.3456 and
  12.3455 as binary64 values.
\<close>

lemma flooring_literals:
  "binary64 (58 / 100) = Finite (5224175567749775 / 9007199254740992)"
  "binary64 (57 / 100) = Finite (5134103575202365 / 9007199254740992)"
  "binary64 (56 / 100) = Finite (1261007895663739 / 2251799813685248)"
  "binary64 (1 / 10) = Finite (3602879701896397 / 36028797018963968)"
  "binary64 (123456 / 10000) = Finite (6949954944958149 / 562949953421312)"
  "binary64 (123455 / 10000) = Finite (6949898649962807 / 562949953421312)"
  by (simp_all add: b64)

lemma flooring_values:
  "binary64 (29 / 50) = Finite (5224175567749775 / 9007199254740992)"
  "binary64 100 = Finite 100"
  "binary64 (130604389193744375 / 2251799813685248) = Finite (8162774324609023 / 140737488355328)"
  "binary64 (57 / 100) = Finite (5134103575202365 / 9007199254740992)"
  "binary64 (128352589380059125 / 2251799813685248) = Finite (8022036836253695 / 140737488355328)"
  "binary64 (14 / 25) = Finite (1261007895663739 / 2251799813685248)"
  "binary64 (180143985094819825 / 18014398509481984) = Finite 10"
  "binary64 (1 / 10) = Finite (3602879701896397 / 36028797018963968)"
  "binary64 (7716 / 625) = Finite (6949954944958149 / 562949953421312)"
  "binary64 10000 = Finite 10000"
  "binary64 (4343721840598843125 / 35184372088832) = Finite (8483831719919615 / 68719476736)"
  "binary64 (24691 / 2000) = Finite (6949898649962807 / 562949953421312)"
  by (simp_all add: b64)

lemmas roundToDecimals_defs =
  roundPrice_def roundTokens_def roundAmount_def roundToDecimals_def Math_pow10_def Let_def

lemma roundPrice_58:
  "roundPrice (Finite (5224175567749775 / 9007199254740992))
     = Finite (5134103575202365 / 9007199254740992)"
  by (simp add: roundToDecimals_defs flooring_values)

lemma roundPrice_57:
  "roundPrice (Finite (5134103575202365 / 9007199254740992))
     = Finite (1261007895663739 / 2251799813685248)"
  by (simp add: roundToDecimals_defs flooring_values)

lemma roundPrice_below_tenth:
  "roundPrice (Finite (7205759403792793 / 2 ^ 56))
     = Finite (3602879701896397 / 36028797018963968)"
  by (simp add: roundToDecimals_defs flooring_values)

lemma below_tenth_representable:
  "binary64 (7205759403792793 / 2 ^ 56) = Finite (7205759403792793 / 2 ^ 56)"
  by (simp add: b64)

text \<open>
  The same drift on the token grid: 12.3456, a holding with four decimals, is floored to
  12.3455, because \<^verbatim>\<open>12.3456 * 10000\<close> is 123455.99999999999.
\<close>

lemma roundTokens_scenario:
  "roundTokens (binary64 (123456 / 10000)) = binary64 (123455 / 10000)"
  unfolding flooring_literals
  by (simp add: roundToDecimals_defs flooring_values)

text \<open>
  C9 (flooring never rounds up and is idempotent) holds of flooring on the real numbers
  (\<open>floorDecimals_le\<close>, \<open>floorDecimals_idem\<close>) and fails on the code, whose numbers
  are binary64. \<^verbatim>\<open>roundPrice(0.58)\<close> is 0.57, because \<^verbatim>\<open>0.58 * 100\<close> is
  57.99999999999999, and \<^verbatim>\<open>roundPrice(0.57)\<close> is 0.56: flooring twice is not flooring
  once. And the number just below 0.1 is floored to 0.1, which is larger: its product with
  100 rounds to 10.
\<close>

theorem flooring64_not_idempotent:
  "roundPrice (binary64 (58 / 100)) = binary64 (57 / 100)
   \<and> roundPrice (binary64 (57 / 100)) = binary64 (56 / 100)
   \<and> binary64 (56 / 100) < binary64 (57 / 100)
   \<and> binary64 (7205759403792793 / 2 ^ 56) = Finite (7205759403792793 / 2 ^ 56)
   \<and> roundPrice (Finite (7205759403792793 / 2 ^ 56)) = binary64 (1 / 10)
   \<and> Finite (7205759403792793 / 2 ^ 56) < binary64 (1 / 10)"
proof (intro conjI)
  show "roundPrice (binary64 (58 / 100)) = binary64 (57 / 100)"
    unfolding flooring_literals by (rule roundPrice_58)
  show "roundPrice (binary64 (57 / 100)) = binary64 (56 / 100)"
    unfolding flooring_literals by (rule roundPrice_57)
  show "binary64 (56 / 100) < binary64 (57 / 100)"
    unfolding flooring_literals by simp
  show "binary64 (7205759403792793 / 2 ^ 56) = Finite (7205759403792793 / 2 ^ 56)"
    by (rule below_tenth_representable)
  show "roundPrice (Finite (7205759403792793 / 2 ^ 56)) = binary64 (1 / 10)"
    unfolding flooring_literals by (rule roundPrice_below_tenth)
  show "Finite (7205759403792793 / 2 ^ 56) < binary64 (1 / 10)"
    unfolding flooring_literals by simp
qed

section \<open>The arbitrage check\<close>

lemmas arb_defs =
  findOtherAsset_def currentThisQty_def currentThisCost_def newThisQty_def newThisCost_def
  newThisAvgPrice_def currentCostBasis_def currentImbalance_def newCostBasis_def
  newImbalance_def ARB_MAX_COST_BASIS_def ARB_MAX_IMBALANCE_def orZero_def

text \<open>
  The check's result in terms of the sides recorded before the call: fetching the tracker
  creates it or fills in its slug, and leaves the sides as they are.
\<close>

lemma checkArb_fst:
  assumes "entries = (case trackers cid of None \<Rightarrow> [] | Some t \<Rightarrow> assets t)"
  shows "fst (checkArbBeforeExecution trackers cid thisAsset newQuantity newAvgPrice slg) =
     (let thisExisting = map_of entries thisAsset;
          firstSide = \<lparr>ok = True, reason = FirstSide, costBasis = Finite 0,
                       imbalance = Finite 0\<rparr>
      in (case findOtherAsset entries thisAsset of
            None \<Rightarrow> firstSide
          | Some otherAsset \<Rightarrow>
              if quantity otherAsset = Finite 0 then firstSide
              else
                let curBasis = currentCostBasis thisExisting otherAsset;
                    curImb = currentImbalance thisExisting otherAsset;
                    newBasis = newCostBasis thisExisting otherAsset newQuantity newAvgPrice;
                    newImb = newImbalance thisExisting otherAsset newQuantity
                in if newBasis \<ge> ARB_MAX_COST_BASIS \<and> curBasis < ARB_MAX_COST_BASIS
                   then \<lparr>ok = False, reason = PushCostBasis,
                         costBasis = newBasis, imbalance = newImb\<rparr>
                   else if newImb > curImb \<and> newImb > ARB_MAX_IMBALANCE
                   then \<lparr>ok = False, reason = WorsenImbalance,
                         costBasis = newBasis, imbalance = newImb\<rparr>
                   else \<lparr>ok = True,
                         reason = (if newImb < curImb then ImprovesBalance
                                   else if newBasis < curBasis then ImprovesCostBasis
                                   else ReasonOK),
                         costBasis = newBasis, imbalance = newImb\<rparr>))"
  unfolding assms
  by (simp add: checkArbBeforeExecution_def getMarketTracker_def Let_def split: option.splits)

lemma checkArb_snd:
  "snd (checkArbBeforeExecution trackers cid thisAsset newQuantity newAvgPrice slg) =
     snd (getMarketTracker trackers cid slg)"
  by (simp add: checkArbBeforeExecution_def Let_def split: prod.splits)

lemma getMarketTracker_frame:
  "snd (getMarketTracker trackers cid slg) c =
     (if c \<noteq> cid then trackers c
      else case trackers cid of
             None \<Rightarrow> Some \<lparr>conditionId = cid, slug = slg, assets = []\<rparr>
           | Some t \<Rightarrow> Some (if truthy slg \<and> \<not> truthy (slug t) then t\<lparr>slug := slg\<rparr> else t))"
  by (simp add: getMarketTracker_def Let_def truthy_def split: option.splits)

text \<open>The example states are states that \<^verbatim>\<open>recordExecution\<close> builds.\<close>

lemma arb_values:
  "binary64 (2 / 5) = Finite (3602879701896397 / 9007199254740992)"
  "binary64 (1 / 2) = Finite (1 / 2)"
  "binary64 (1 / 3) = Finite (6004799503160661 / 18014398509481984)"
  "binary64 (9 / 10) = Finite (8106479329266893 / 9007199254740992)"
  "binary64 (9 / 20) = Finite (8106479329266893 / 18014398509481984)"
  "binary64 (19 / 20) = Finite (4278419646001971 / 4503599627370496)"
  "binary64 (1 / 4) = Finite (1 / 4)"
  "binary64 (1 / 10) = Finite (3602879701896397 / 36028797018963968)"
  "binary64 (107 / 100) = Finite (4818851601286431 / 4503599627370496)"
  "binary64 10 = Finite 10"
  "binary64 (5 / 2) = Finite (5 / 2)"
  "binary64 5 = Finite 5"
  "binary64 (8106479329266893 / 9007199254740992) = Finite (8106479329266893 / 9007199254740992)"
  "binary64 15 = Finite 15"
  "binary64 (- 5) = Finite (- 5)"
  "binary64 20 = Finite 20"
  "binary64 0 = Finite 0"
  "binary64 (117 / 5) = Finite (3293257227514675 / 140737488355328)"
  "binary64 (13 / 20) = Finite (5854679515581645 / 9007199254740992)"
  "binary64 (42153692512187840 / 1170935903116329) = Finite 36"
  "binary64 (3293257227514675 / 5066549580791808) = Finite (1463669878895411 / 2251799813685248)"
  "binary64 (27 / 5) = Finite (3039929748475085 / 562949953421312)"
  "binary64 (3 / 10) = Finite (5404319552844595 / 18014398509481984)"
  "binary64 (19455550390240544 / 1080863910568919) = Finite (5066549580791809 / 281474976710656)"
  "binary64 (3039929748475085 / 10133099161583618) = Finite (2702159776422297 / 9007199254740992)"
  "binary64 (39 / 5) = Finite (8782019273372467 / 1125899906842624)"
  "binary64 (140512308373959472 / 5404319552844595) = Finite 26"
  "binary64 (12384898975268865 / 281474976710656) = Finite 44"
  "binary64 (70256154186979735 / 9007199254740992) = Finite (8782019273372467 / 1125899906842624)"
  "binary64 (14861878770322637 / 1125899906842624) = Finite (3715469692580659 / 281474976710656)"
  "binary64 (3715469692580659 / 12384898975268864) = Finite (5404319552844595 / 18014398509481984)"
  "binary64 (8556839292003941 / 9007199254740992) = Finite (8556839292003941 / 9007199254740992)"
  "binary64 (15199648742375425 / 281474976710656) = Finite 54"
  "binary64 (- (5066549580791807 / 281474976710656)) = Finite (- (5066549580791807 / 281474976710656))"
  "binary64 (5066549580791807 / 15199648742375424) = Finite (1501199875790165 / 4503599627370496)"
  "binary64 (17113678584007883 / 18014398509481984) = Finite (4278419646001971 / 4503599627370496)"
  "binary64 80 = Finite 80"
  "binary64 8 = Finite 8"
  "binary64 (8106479329266893 / 18014398509481984) = Finite (8106479329266893 / 18014398509481984)"
  "binary64 (- 10) = Finite (- 10)"
  "binary64 1 = Finite 1"
  "binary64 (17113678584007885 / 18014398509481984) = Finite (4278419646001971 / 4503599627370496)"
  "binary64 (31 / 50) = Finite (5584463537939415 / 9007199254740992)"
  "binary64 (27922317689697075 / 4503599627370496) = Finite (6980579422424269 / 1125899906842624)"
  "binary64 (6980579422424269 / 1125899906842624) = Finite (6980579422424269 / 1125899906842624)"
  "binary64 (6980579422424269 / 11258999068426240) = Finite (5584463537939415 / 9007199254740992)"
  "binary64 (19275406405145723 / 18014398509481984) = Finite (4818851601286431 / 4503599627370496)"
  "binary64 (12047129003216077 / 1125899906842624) = Finite (3011782250804019 / 281474976710656)"
  "binary64 (3011782250804019 / 5629499534213120) = Finite (2409425800643215 / 4503599627370496)"
  by (simp_all add: b64)

lemma ex_trackers_recorded:
  "recordExecution
     (recordExecution Map.empty ''m1'' ''YES'' (Finite 10) (Finite 4) None)
     ''m1'' ''NO'' (Finite 5) (Finite (5 / 2)) None = ex_trackers"
  by (simp add: recordExecution_def getMarketTracker_def truthy_def Let_def ex_trackers_def
        ex_yes_def ex_no_def arb_values)

lemma ex_trackers2_recorded:
  "recordExecution Map.empty ''m2'' ''NO'' (Finite 10) (Finite (9 / 2)) None = ex_trackers2"
  by (simp add: recordExecution_def getMarketTracker_def truthy_def Let_def ex_trackers2_def
        ex_no45_def arb_values)



text \<open>
  Rounding shows in the numbers the check computes. In the market of the third example
  state the recorded average prices are 0.6499999999999999 and 0.29999999999999993; for a
  further YES execution of 7.80 USD at 0.30 the check computes the current basis
  0.9499999999999998 and the prospective basis 0.95, and rejects the trade.
\<close>

lemma arb_gate_rounding:
  "ex_trackers3 ''m3'' = Some \<lparr>conditionId = ''m3'', slug = None, assets =
       [(''NO'', \<lparr>asset = ''NO'', quantity = Finite 36,
                  totalCost = Finite (3293257227514675 / 140737488355328),
                  avgPrice = Finite (1463669878895411 / 2251799813685248)\<rparr>),
        (''YES'', \<lparr>asset = ''YES'', quantity = Finite (5066549580791809 / 281474976710656),
                   totalCost = Finite (3039929748475085 / 562949953421312),
                   avgPrice = Finite (2702159776422297 / 9007199254740992)\<rparr>)]\<rparr>"
  "fst (checkArbBeforeExecution ex_trackers3 ''m3'' ''YES''
          (binary64 (780 / 100) / binary64 (30 / 100)) (binary64 (30 / 100)) None)
     = \<lparr>ok = False, reason = PushCostBasis, costBasis = binary64 (95 / 100),
        imbalance = binary64 (1 / 10)\<rparr>"
proof -
  show s: "ex_trackers3 ''m3'' = Some \<lparr>conditionId = ''m3'', slug = None, assets =
       [(''NO'', \<lparr>asset = ''NO'', quantity = Finite 36,
                  totalCost = Finite (3293257227514675 / 140737488355328),
                  avgPrice = Finite (1463669878895411 / 2251799813685248)\<rparr>),
        (''YES'', \<lparr>asset = ''YES'', quantity = Finite (5066549580791809 / 281474976710656),
                   totalCost = Finite (3039929748475085 / 562949953421312),
                   avgPrice = Finite (2702159776422297 / 9007199254740992)\<rparr>)]\<rparr>"
    by (simp add: ex_trackers3_def recordExecution_def getMarketTracker_def truthy_def Let_def
          arb_values)
  show "fst (checkArbBeforeExecution ex_trackers3 ''m3'' ''YES''
          (binary64 (780 / 100) / binary64 (30 / 100)) (binary64 (30 / 100)) None)
     = \<lparr>ok = False, reason = PushCostBasis, costBasis = binary64 (95 / 100),
        imbalance = binary64 (1 / 10)\<rparr>"
    by (simp add: checkArb_fst [where trackers = ex_trackers3 and cid = "''m3''", OF refl] s
          arb_defs Let_def arb_values)
qed

text \<open>
  C2, as the claim words it: a trade is rejected if and only if the prospective basis is
  above the ceiling while the current one is below it, or the prospective imbalance is
  larger than the current one and above its ceiling. It fails on the boundary: with NO
  recorded at 10 tokens and 0.45, a first YES fill of 10 tokens at 0.50 has the prospective
  basis 0.95, which is not above the ceiling, and the imbalance falls from 1 to 0; yet the
  code rejects it, because its test is \<^verbatim>\<open>newCostBasis >= ARB_MAX_COST_BASIS\<close>.
\<close>

theorem arb_gate_boundary_counterexample:
  "\<not> (\<not> ok (fst (checkArbBeforeExecution ex_trackers2 ''m2'' ''YES'' (Finite 10) (Finite (1 / 2)) None))
        \<longleftrightarrow>
        (ARB_MAX_COST_BASIS < newCostBasis None ex_no45 (Finite 10) (Finite (1 / 2))
           \<and> currentCostBasis None ex_no45 < ARB_MAX_COST_BASIS)
      \<or> (currentImbalance None ex_no45 < newImbalance None ex_no45 (Finite 10)
           \<and> ARB_MAX_IMBALANCE < newImbalance None ex_no45 (Finite 10)))"
  by (simp add: checkArb_fst [of "[(''NO'', ex_no45)]"] ex_trackers2_def arb_defs ex_no45_def
        Let_def arb_values)

text \<open>
  C2, amended. Let \<^verbatim>\<open>entries\<close> be the sides recorded for the market before the call (none
  when the market has no tracker yet), and let the cost bases and imbalances be the numbers
  the check computes. When the first recorded side of another asset has a quantity other
  than 0, the trade is rejected if and only if (a) the prospective combined cost basis is
  at or above 0.95 while the current one is below 0.95, or (b) the prospective imbalance is
  strictly larger than the current one and strictly above 0.25. When no side of another
  asset is recorded, or the first such side has quantity 0, the trade is allowed as the
  first side.
\<close>

theorem arb_gate_rejects_iff:
  assumes "entries = (case trackers cid of None \<Rightarrow> [] | Some t \<Rightarrow> assets t)"
      and "thisExisting = map_of entries thisAsset"
      and "res = fst (checkArbBeforeExecution trackers cid thisAsset newQuantity newAvgPrice slg)"
  shows "(\<forall>other. findOtherAsset entries thisAsset = Some other \<and> quantity other \<noteq> Finite 0 \<longrightarrow>
            (\<not> ok res \<longleftrightarrow>
               (ARB_MAX_COST_BASIS \<le> newCostBasis thisExisting other newQuantity newAvgPrice
                  \<and> currentCostBasis thisExisting other < ARB_MAX_COST_BASIS)
             \<or> (currentImbalance thisExisting other < newImbalance thisExisting other newQuantity
                  \<and> ARB_MAX_IMBALANCE < newImbalance thisExisting other newQuantity)))
       \<and> ((findOtherAsset entries thisAsset = None
            \<or> (\<exists>other. findOtherAsset entries thisAsset = Some other
                        \<and> quantity other = Finite 0))
           \<longrightarrow> ok res \<and> reason res = FirstSide)"
  unfolding assms(3) assms(2)
    checkArb_fst [where entries = entries and trackers = trackers and cid = cid, OF assms(1)]
  by (auto simp add: Let_def)

text \<open>
  The witness: against NO at 10 tokens and 0.45, a YES fill of 10 tokens at 0.62 takes the
  basis from 0.45 to 1.07 and is rejected; a further NO fill is a first side and is allowed.
\<close>

theorem arb_gate_rejects_iff_witness:
  "fst (checkArbBeforeExecution ex_trackers2 ''m2'' ''YES'' (Finite 10) (binary64 (62 / 100)) None)
     = \<lparr>ok = False, reason = PushCostBasis, costBasis = binary64 (107 / 100),
        imbalance = Finite 0\<rparr>
   \<and> currentCostBasis None ex_no45 = binary64 (45 / 100)
   \<and> ok (fst (checkArbBeforeExecution ex_trackers2 ''m2'' ''NO'' (Finite 10) (binary64 (62 / 100)) None))"
  using arb_gate_rejects_iff [of "[(''NO'', ex_no45)]" ex_trackers2 "''m2''" None "''YES''"
          "fst (checkArbBeforeExecution ex_trackers2 ''m2'' ''YES'' (Finite 10) (binary64 (62 / 100)) None)"
          "Finite 10" "binary64 (62 / 100)" None]
        arb_gate_rejects_iff [of "[(''NO'', ex_no45)]" ex_trackers2 "''m2''" "Some ex_no45" "''NO''"
          "fst (checkArbBeforeExecution ex_trackers2 ''m2'' ''NO'' (Finite 10) (binary64 (62 / 100)) None)"
          "Finite 10" "binary64 (62 / 100)" None]
  by (simp add: ex_trackers2_def arb_defs ex_no45_def Let_def arb_values
        checkArb_fst [of "[(''NO'', ex_no45)]"])

text \<open>
  The writer of the sides is \<^verbatim>\<open>recordExecution\<close>: after it, the tracker of the market
  holds for the executed asset the accumulated quantity and cost and their quotient, or a
  fresh side when the asset had none.
\<close>

lemma recordExecution_side:
  assumes "entries = (case trackers cid of None \<Rightarrow> [] | Some t \<Rightarrow> assets t)"
  shows "\<exists>t'. recordExecution trackers cid ast qty cost slg cid = Some t'
       \<and> map_of (assets t') ast =
           Some (case map_of entries ast of
                   Some existing \<Rightarrow>
                     existing\<lparr>quantity := quantity existing + qty,
                              totalCost := totalCost existing + cost,
                              avgPrice := (totalCost existing + cost) / (quantity existing + qty)\<rparr>
                 | None \<Rightarrow>
                     \<lparr>asset = ast, quantity = qty, totalCost = cost, avgPrice = cost / qty\<rparr>)"
  unfolding assms
  by (simp add: recordExecution_def getMarketTracker_def Let_def update_conv'
        split: option.splits)

text \<open>
  C10, as the claim words it: the only change the check can make to the store is to insert
  an empty tracker for a condition id that had none. It fails where the tracker exists
  without a slug and the call brings one: \<^verbatim>\<open>getMarketTracker\<close> then assigns the slug of
  the existing tracker.
\<close>

theorem arb_check_frame_counterexample:
  "\<not> (snd (checkArbBeforeExecution ex_trackers2 ''m2'' ''YES'' (Finite 10) (Finite (1 / 2))
             (Some ''btc-15m''))
        = ex_trackers2
      \<or> (ex_trackers2 ''m2'' = None
          \<and> snd (checkArbBeforeExecution ex_trackers2 ''m2'' ''YES'' (Finite 10) (Finite (1 / 2))
                   (Some ''btc-15m''))
              = ex_trackers2(''m2'' \<mapsto>
                  \<lparr>conditionId = ''m2'', slug = Some ''btc-15m'', assets = []\<rparr>)))"
proof -
  have "snd (checkArbBeforeExecution ex_trackers2 ''m2'' ''YES'' (Finite 10) (Finite (1 / 2))
               (Some ''btc-15m'')) ''m2''
          \<noteq> ex_trackers2 ''m2''"
    by (simp add: checkArb_snd getMarketTracker_frame ex_trackers2_def truthy_def)
  moreover have "ex_trackers2 ''m2'' \<noteq> None"
    by (simp add: ex_trackers2_def)
  ultimately show ?thesis by auto
qed

text \<open>
  C10, amended. The check never modifies a recorded side: every tracker stored before the
  call is stored after it with the same condition id and the same sides (asset, quantity,
  total cost and average price of each), and it is the same tracker except that the tracker
  of the checked market, when it had no slug and the call brings one, gets that slug. A
  condition id without a tracker stays without one, except the checked one, which gets an
  empty tracker. \<^verbatim>\<open>getMarketTracker\<close>, the only other function that writes to the store
  besides \<^verbatim>\<open>recordExecution\<close>, keeps the sides as well.
\<close>

theorem arb_check_frame:
  assumes "after = snd (checkArbBeforeExecution trackers cid thisAsset newQuantity newAvgPrice slg)"
  shows "(\<forall>c t. trackers c = Some t \<longrightarrow>
            (\<exists>t'. after c = Some t' \<and> assets t' = assets t \<and> conditionId t' = conditionId t
                   \<and> (t' = t \<or> (c = cid \<and> \<not> truthy (slug t) \<and> truthy slg
                                  \<and> t' = t\<lparr>slug := slg\<rparr>))))
       \<and> (\<forall>c. trackers c = None \<longrightarrow>
            after c = (if c = cid then Some \<lparr>conditionId = cid, slug = slg, assets = []\<rparr>
                       else None))
       \<and> (\<forall>c t. trackers c = Some t \<longrightarrow>
            (\<exists>t'. snd (getMarketTracker trackers cid slg) c = Some t' \<and> assets t' = assets t))"
  unfolding assms checkArb_snd
  by (auto simp add: getMarketTracker_frame)

theorem arb_check_frame_witness:
  "(\<exists>t'. snd (checkArbBeforeExecution ex_trackers2 ''m2'' ''YES'' (Finite 10) (Finite (1 / 2))
                (Some ''btc-15m'')) ''m2''
           = Some t' \<and> assets t' = [(''NO'', ex_no45)])
   \<and> snd (checkArbBeforeExecution ex_trackers2 ''m2'' ''YES'' (Finite 10) (Finite (1 / 2))
            (Some ''btc-15m'')) ''m9''
       = None"
proof -
  note fr = arb_check_frame [OF refl, of ex_trackers2 "''m2''" "''YES''" "Finite 10" "Finite (1 / 2)"
                             "Some ''btc-15m''"]
  have a: "ex_trackers2 ''m2'' =
             Some \<lparr>conditionId = ''m2'', slug = None, assets = [(''NO'', ex_no45)]\<rparr>"
    by (simp add: ex_trackers2_def)
  have b: "ex_trackers2 ''m9'' = None"
    by (simp add: ex_trackers2_def)
  from fr [THEN conjunct1, rule_format, OF a] fr [THEN conjunct2, THEN conjunct1, rule_format, OF b]
  show ?thesis by auto
qed

section \<open>The aggregation buffer\<close>




text \<open>Adding a trade keeps the keys of the buffer distinct.\<close>

lemma addToAggregationBuffer_distinct:
  "distinct (map fst buffer) \<Longrightarrow> distinct (map fst (addToAggregationBuffer buffer trade now))"
  by (simp add: addToAggregationBuffer_def Let_def distinct_update split: option.splits)

text \<open>
  The witness (scenario A of the specification): the YES accumulator holds 5.5 tokens and
  is released, the NO accumulator holds 1 token and stays.
\<close>

lemma buffer_values:
  "binary64 (2 / 5) = Finite (3602879701896397 / 9007199254740992)"
  "binary64 (4 / 5) = Finite (3602879701896397 / 4503599627370496)"
  "binary64 (1 / 2) = Finite (1 / 2)"
  "binary64 (7 / 10) = Finite (3152519739159347 / 4503599627370496)"
  "binary64 15 = Finite 15"
  "binary64 (3 / 2) = Finite (3 / 2)"
  "binary64 (3602879701896397 / 1125899906842624) = Finite (3602879701896397 / 1125899906842624)"
  "binary64 (25220157913274779 / 9007199254740992) = Finite (6305039478318695 / 2251799813685248)"
  "binary64 (13510798882111489 / 2251799813685248) = Finite 6"
  "binary64 22 = Finite 22"
  "binary64 (9907919180215091 / 4503599627370496) = Finite (2476979795053773 / 1125899906842624)"
  "binary64 (19815838360430183 / 2251799813685248) = Finite (2476979795053773 / 281474976710656)"
  "binary64 (2476979795053773 / 6192449487634432) = Finite (3602879701896397 / 9007199254740992)"
  "binary64 (7 / 20) = Finite (3152519739159347 / 9007199254740992)"
  "binary64 (7 / 100) = Finite (1261007895663739 / 18014398509481984)"
  "binary64 (6305039478318694 / 1261007895663739) = Finite (5629499534213119 / 1125899906842624)"
  "binary64 (1 / 4) = Finite (1 / 4)"
  "binary64 (1 / 20) = Finite (3602879701896397 / 72057594037927936)"
  "binary64 (18014398509481984 / 3602879701896397) = Finite 5"
  "binary64 (7 / 2) = Finite (7 / 2)"
  "binary64 (72057594037927936 / 3602879701896397) = Finite 20"
  "binary64 10 = Finite 10"
  "binary64 (63050394783186944 / 3602879701896397) = Finite (35 / 2)"
  "binary64 (63050394783186944 / 1261007895663739) = Finite (7036874417766399 / 140737488355328)"
  "binary64 (19815838360430184 / 3602879701896397) = Finite (11 / 2)"
  "binary64 1 = Finite 1"
  by (simp_all add: b64)







text \<open>
  The quotient is a rounded one. For a scaled size of 0.35 at the price 0.07 it is
  4.999999999999999, under the threshold, and the accumulator stays in the buffer; for 0.25
  at 0.05 it is 5.
\<close>

lemma threshold_quotients:
  "binary64 (35 / 100) / binary64 (7 / 100) = Finite (5629499534213119 / 1125899906842624)"
  "binary64 (25 / 100) / binary64 (5 / 100) = Finite 5"
  by (simp_all add: buffer_values)

lemma getReady_threshold:
  "map (totalTokens \<circ> snd) ex_buffer_threshold
     = [Finite (5629499534213119 / 1125899906842624)]"
  "fst (getReadyAggregations ex_buffer_threshold) = []"
  "snd (getReadyAggregations ex_buffer_threshold) = ex_buffer_threshold"
  by (simp_all add: ex_buffer_threshold_def addToAggregationBuffer_def getAggregationKey_def
        ex_trade_def Let_def truthy_def totalTokens_def buffer_values getReadyAggregations_def
        MIN_TOKENS_FOR_ORDER_def)

section \<open>The loops of the order executor\<close>

text \<open>
  The invariant rule of the loop: an invariant kept by every pass that goes on, and a
  property that holds when a pass leaves the loop and when the loop test fails.
\<close>

lemma runLoop_rule:
  assumes run: "runLoop L body evs st = Some st'"
      and init: "I st"
      and cont: "\<And>ev s s'. I s \<Longrightarrow> Finite 0 < remaining s \<Longrightarrow> retry s < L
                   \<Longrightarrow> body ev s = Continue s' \<Longrightarrow> I s'"
      and brk: "\<And>ev s s'. I s \<Longrightarrow> Finite 0 < remaining s \<Longrightarrow> retry s < L
                   \<Longrightarrow> body ev s = Break s' \<Longrightarrow> Q s'"
      and fin: "\<And>s. I s \<Longrightarrow> \<not> (Finite 0 < remaining s \<and> retry s < L) \<Longrightarrow> Q s"
  shows "Q st'"
  using run init
proof (induction evs arbitrary: st)
  case Nil
  then show ?case
    using fin by (auto split: if_splits)
next
  case (Cons ev evs)
  show ?case
  proof (cases "Finite 0 < remaining st \<and> retry st < L")
    case False
    with Cons.prems fin show ?thesis by auto
  next
    case True
    show ?thesis
    proof (cases "body ev st")
      case (Continue s)
      with True Cons.prems have "runLoop L body evs s = Some st'" by simp
      moreover from cont [OF Cons.prems(2) _ _ Continue] True have "I s" by simp
      ultimately show ?thesis by (rule Cons.IH)
    next
      case (Break s)
      with True Cons.prems have "st' = s" by simp
      with brk [OF Cons.prems(2) _ _ Break] True show ?thesis by simp
    qed
  qed
qed

lemma runLoop_break:
  assumes "Finite 0 < remaining st" "retry st < L" "body ev st = Break s"
  shows "runLoop L body (ev # evs) st = Some s"
  using assms by simp

subsection \<open>Best bid and best ask\<close>

text \<open>
  No level of the book is better than the one the reduction returns (a level whose price
  is \<^verbatim>\<open>NaN\<close> is never better, and never worse).
\<close>

lemma maxPriceBid_fold:
  "(foldl (\<lambda>mx bid. if entry_price bid > entry_price mx then bid else mx) m xs = m
    \<or> entry_price m
        < entry_price (foldl (\<lambda>mx bid. if entry_price bid > entry_price mx then bid else mx) m xs))
   \<and> (\<forall>x \<in> set xs. \<not> entry_price (foldl (\<lambda>mx bid. if entry_price bid > entry_price mx then bid else mx) m xs)
                        < entry_price x)"
proof (induction xs arbitrary: m)
  case Nil
  then show ?case by simp
next
  case (Cons x xs)
  let ?f = "\<lambda>mx bid. if entry_price bid > entry_price mx then bid else mx"
  show ?case
  proof (cases "entry_price x > entry_price m")
    case True
    from Cons.IH [of x] have ih: "foldl ?f x xs = x \<or> entry_price x < entry_price (foldl ?f x xs)"
      "\<forall>y \<in> set xs. \<not> entry_price (foldl ?f x xs) < entry_price y" by simp_all
    from ih(1) True have 1: "entry_price m < entry_price (foldl ?f x xs)"
      using number_less_trans by auto
    from ih(1) have 2: "\<not> entry_price (foldl ?f x xs) < entry_price x"
      using number_less_asym number_less_irrefl by auto
    from True 1 2 ih(2) show ?thesis by simp
  next
    case False
    from Cons.IH [of m] have ih: "foldl ?f m xs = m \<or> entry_price m < entry_price (foldl ?f m xs)"
      "\<forall>y \<in> set xs. \<not> entry_price (foldl ?f m xs) < entry_price y" by simp_all
    from ih(1) False have "\<not> entry_price (foldl ?f m xs) < entry_price x"
      using number_less_trans by auto
    with False ih show ?thesis by simp
  qed
qed

lemma maxPriceBid_greatest:
  "\<forall>x \<in> set (b # bs). \<not> entry_price (maxPriceBid b bs) < entry_price x"
  using maxPriceBid_fold [of b "b # bs"] by (auto simp add: maxPriceBid_def number_less_irrefl)

lemma minPriceAsk_fold:
  "(foldl (\<lambda>mn ask. if entry_price ask < entry_price mn then ask else mn) m xs = m
    \<or> entry_price (foldl (\<lambda>mn ask. if entry_price ask < entry_price mn then ask else mn) m xs)
        < entry_price m)
   \<and> (\<forall>x \<in> set xs. \<not> entry_price x
                        < entry_price (foldl (\<lambda>mn ask. if entry_price ask < entry_price mn then ask else mn) m xs))"
proof (induction xs arbitrary: m)
  case Nil
  then show ?case by simp
next
  case (Cons x xs)
  let ?f = "\<lambda>mn ask. if entry_price ask < entry_price mn then ask else mn"
  show ?case
  proof (cases "entry_price x < entry_price m")
    case True
    from Cons.IH [of x] have ih: "foldl ?f x xs = x \<or> entry_price (foldl ?f x xs) < entry_price x"
      "\<forall>y \<in> set xs. \<not> entry_price y < entry_price (foldl ?f x xs)" by simp_all
    from ih(1) True have 1: "entry_price (foldl ?f x xs) < entry_price m"
      using number_less_trans by auto
    from ih(1) have 2: "\<not> entry_price x < entry_price (foldl ?f x xs)"
      using number_less_asym number_less_irrefl by auto
    from True 1 2 ih(2) show ?thesis by simp
  next
    case False
    from Cons.IH [of m] have ih: "foldl ?f m xs = m \<or> entry_price (foldl ?f m xs) < entry_price m"
      "\<forall>y \<in> set xs. \<not> entry_price y < entry_price (foldl ?f m xs)" by simp_all
    from ih(1) False have "\<not> entry_price x < entry_price (foldl ?f m xs)"
      using number_less_trans by auto
    with False ih show ?thesis by simp
  qed
qed

lemma minPriceAsk_least:
  "\<forall>x \<in> set (a # as). \<not> entry_price x < entry_price (minPriceAsk a as)"
  using minPriceAsk_fold [of a "a # as"] by (auto simp add: minPriceAsk_def number_less_irrefl)

subsection \<open>Funds errors\<close>

lemma fundsFree_append:
  "fundsFree (subs @ [s]) = (fundsFree subs \<and> \<not> fundsFailure (sub_outcome s))"
  by (simp add: fundsFree_def)

lemma fundsFree_nth:
  "fundsFree subs \<Longrightarrow> i < length subs \<Longrightarrow> \<not> fundsFailure (sub_outcome (subs ! i))"
  by (simp add: fundsFree_def list_all_length)

lemma abortedOnLast_index:
  assumes "abortedOnLast st" and "i < length (submitted st)"
      and "fundsFailure (sub_outcome (submitted st ! i))"
  shows "i = length (submitted st) - 1 \<and> abortDueToFunds st"
proof (cases "abortDueToFunds st")
  case False
  with assms show ?thesis
    using fundsFree_nth [of "submitted st" i] by (simp add: abortedOnLast_def)
next
  case True
  with assms(1) have ff: "fundsFree (butlast (submitted st))"
    by (simp add: abortedOnLast_def)
  have "\<not> i < length (submitted st) - 1"
  proof
    assume lt: "i < length (submitted st) - 1"
    then have "butlast (submitted st) ! i = submitted st ! i"
      by (simp add: nth_butlast)
    with fundsFree_nth [OF ff, of i] lt assms(3) show False by simp
  qed
  with assms(2) True show ?thesis by simp
qed

lemma loopInv_aborted: "loopInv st \<Longrightarrow> abortedOnLast st"
  by (simp add: loopInv_def abortedOnLast_def)

lemma loopInv_init: "loopInv (initState r)"
  by (simp add: loopInv_def initState_def fundsFree_def)

lemma mergeStep_funds:
  assumes "loopInv st"
  shows "(mergeStep tok ev st = Continue st' \<longrightarrow> loopInv st')
       \<and> (mergeStep tok ev st = Break st' \<longrightarrow> abortedOnLast st')"
  using assms
  by (auto simp add: mergeStep_def Let_def loopInv_def abortedOnLast_def submit_def writeUpdate_def
        fundsFree_append fundsFailure_def split: list.splits)

lemma sellStep_funds:
  assumes "loopInv st"
  shows "(sellStep tok ev st = Continue st' \<longrightarrow> loopInv st')
       \<and> (sellStep tok ev st = Break st' \<longrightarrow> abortedOnLast st')"
  using assms
  by (auto simp add: sellStep_def Let_def loopInv_def abortedOnLast_def submit_def writeUpdate_def
        fundsFree_append fundsFailure_def split: list.splits if_splits)

lemma buyOutcome_funds:
  assumes "loopInv st"
  shows "(buyOutcome s out st (submit ord ty out st) = Continue st' \<longrightarrow> loopInv st')
       \<and> (buyOutcome s out st (submit ord ty out st) = Break st' \<longrightarrow> abortedOnLast st')"
  using assms
  by (auto simp add: buyOutcome_def Let_def loopInv_def abortedOnLast_def submit_def writeUpdate_def
        fundsFree_append fundsFailure_def split: outcome.splits if_splits)

lemma placeOrder_funds:
  assumes "loopInv st"
  shows "(placeOrder tok useFOK price out st = Continue st' \<longrightarrow> loopInv st')
       \<and> (placeOrder tok useFOK price out st = Break st' \<longrightarrow> abortedOnLast st')"
proof -
  have plain: "abortedOnLast (writeUpdate u st)" for u
    using assms by (simp add: loopInv_def abortedOnLast_def writeUpdate_def)
  show ?thesis
    using plain buyOutcome_funds [OF assms]
    by (auto simp add: placeOrder_def Let_def split: prod.splits if_splits)
qed

lemma buyStep_funds:
  assumes "loopInv st"
  shows "(buyStep SKIP trade ev st = Continue st' \<longrightarrow> loopInv st')
       \<and> (buyStep SKIP trade ev st = Break st' \<longrightarrow> abortedOnLast st')"
proof -
  have plain: "abortedOnLast (writeUpdate u st)" for u
    using assms by (simp add: loopInv_def abortedOnLast_def writeUpdate_def)
  show ?thesis
    using plain placeOrder_funds [OF assms]
    by (auto simp add: buyStep_def Let_def split: list.splits orderStyle.splits if_splits)
qed

lemma runLoop_funds:
  assumes run: "runLoop L body evs (initState r) = Some st"
      and body: "\<And>ev s s'. loopInv s \<Longrightarrow>
                   (body ev s = Continue s' \<longrightarrow> loopInv s') \<and> (body ev s = Break s' \<longrightarrow> abortedOnLast s')"
  shows "abortedOnLast st"
proof (rule runLoop_rule [OF run, where I = loopInv])
  show "loopInv (initState r)" by (rule loopInv_init)
next
  fix ev s s' assume "loopInv s" "body ev s = Continue s'"
  then show "loopInv s'" using body by blast
next
  fix ev s s' assume "loopInv s" "body ev s = Break s'"
  then show "abortedOnLast s'" using body by blast
next
  fix s assume "loopInv s"
  then show "abortedOnLast s" by (rule loopInv_aborted)
qed

lemma finishSell_funds:
  "submitted (finishSell L st) = submitted st"
  "abortDueToFunds (finishSell L st) = abortDueToFunds st"
  "abortDueToFunds st \<Longrightarrow> last (updates (finishSell L st))
      = \<lparr>upd_bot = True, upd_botExcutedTime = Some L, upd_myBoughtSize = None\<rparr>"
  by (simp_all add: finishSell_def writeUpdate_def)

lemma finishBuy_funds:
  "submitted (finishBuy L st) = submitted st"
  "abortDueToFunds (finishBuy L st) = abortDueToFunds st"
  "abortDueToFunds st \<Longrightarrow> last (updates (finishBuy L st))
      = \<lparr>upd_bot = True, upd_botExcutedTime = Some L, upd_myBoughtSize = Some (totalFilled st)\<rparr>"
  by (simp_all add: finishBuy_def writeUpdate_def boughtSoFar_def)

lemma abortedOnLast_finish:
  "abortedOnLast st \<Longrightarrow> abortedOnLast (finishSell L st)"
  "abortedOnLast st \<Longrightarrow> abortedOnLast (finishBuy L st)"
  by (simp_all add: abortedOnLast_def finishSell_funds finishBuy_funds)

lemma abortedOnLast_early: "abortedOnLast (writeUpdate u (initState r))"
  by (simp add: abortedOnLast_def writeUpdate_def initState_def fundsFree_def)

lemma early_no_abort: "\<not> abortDueToFunds (writeUpdate u (initState r))"
  by (simp add: writeUpdate_def initState_def)

lemma merge_run_funds:
  assumes "postOrder_merge L my_position evs = Some st"
  shows "abortedOnLast st
       \<and> (abortDueToFunds st \<longrightarrow> last (updates st)
            = \<lparr>upd_bot = True, upd_botExcutedTime = Some L, upd_myBoughtSize = None\<rparr>)"
proof (cases my_position)
  case None
  with assms show ?thesis
    by (auto simp add: postOrder_merge_def abortedOnLast_early early_no_abort)
next
  case (Some p)
  show ?thesis
  proof (cases "roundTokens (pos_size p) < MIN_ORDER_SIZE_TOKENS")
    case True
    with Some assms show ?thesis
      by (auto simp add: postOrder_merge_def Let_def abortedOnLast_early early_no_abort)
  next
    case False
    with Some assms obtain st0 where
      run: "runLoop L (mergeStep (pos_asset p)) evs (initState (roundTokens (pos_size p))) = Some st0"
      and st: "st = finishSell L st0"
      by (auto simp add: postOrder_merge_def Let_def)
    have "abortedOnLast st0"
      using run mergeStep_funds by (rule runLoop_funds)
    then show ?thesis
      unfolding st by (simp add: abortedOnLast_finish finishSell_funds)
  qed
qed

lemma sell_run_funds:
  assumes "postOrder_sell L my_position user_position trade previousBuys mult evs = Some (st, tracked)"
  shows "abortedOnLast st
       \<and> (abortDueToFunds st \<longrightarrow> last (updates st)
            = \<lparr>upd_bot = True, upd_botExcutedTime = Some L, upd_myBoughtSize = None\<rparr>)"
proof (cases my_position)
  case None
  with assms show ?thesis
    by (auto simp add: postOrder_sell_def abortedOnLast_early early_no_abort)
next
  case (Some p)
  show ?thesis
  proof (cases "sellQuantity p user_position trade (totalBoughtTokens previousBuys) mult")
    case None
    with Some assms show ?thesis
      by (auto simp add: postOrder_sell_def abortedOnLast_early early_no_abort)
  next
    case (Some q)
    with \<open>my_position = Some p\<close> assms obtain st0 where
      run: "runLoop L (sellStep (trade_asset trade)) evs (initState q) = Some st0"
      and st: "st = finishSell L st0"
      by (auto simp add: postOrder_sell_def)
    have "abortedOnLast st0"
      using run sellStep_funds by (rule runLoop_funds)
    then show ?thesis
      unfolding st by (simp add: abortedOnLast_finish finishSell_funds)
  qed
qed

lemma buy_run_funds:
  assumes "postOrder_buy L SKIP trade preScaledAmount orderCalc evs = Some st"
  shows "abortedOnLast st
       \<and> (abortDueToFunds st \<longrightarrow> upd_bot (last (updates st))
            \<and> upd_botExcutedTime (last (updates st)) = Some L)"
proof -
  have loop: "abortedOnLast (finishBuy L st0)
       \<and> (abortDueToFunds (finishBuy L st0) \<longrightarrow> upd_bot (last (updates (finishBuy L st0)))
            \<and> upd_botExcutedTime (last (updates (finishBuy L st0))) = Some L)"
    if run: "runLoop L (buyStep SKIP trade) evs (initState r) = Some st0" for r st0
  proof -
    have "abortedOnLast st0"
      using run buyStep_funds by (rule runLoop_funds)
    then show ?thesis
      by (simp add: abortedOnLast_finish finishBuy_funds)
  qed
  show ?thesis
  proof (cases preScaledAmount)
    case (Some amount)
    with assms loop show ?thesis
      by (auto simp add: postOrder_buy_def)
  next
    case None
    with assms loop show ?thesis
      by (cases "fst orderCalc")
         (auto simp add: postOrder_buy_def abortedOnLast_early early_no_abort)
  qed
qed

lemma mergeStep_abort:
  assumes "fundsFailure (Responded (snd ev))"
      and "submitted (stepState (mergeStep tok ev st)) \<noteq> submitted st"
  shows "\<exists>s. mergeStep tok ev st = Break s \<and> abortDueToFunds s"
  using assms
  by (auto simp add: mergeStep_def Let_def fundsFailure_def stepState_def writeUpdate_def
        split: list.splits)

lemma sellStep_abort:
  assumes "fundsFailure (Responded (snd ev))"
      and "submitted (stepState (sellStep tok ev st)) \<noteq> submitted st"
  shows "\<exists>s. sellStep tok ev st = Break s \<and> abortDueToFunds s"
  using assms
  by (auto simp add: sellStep_def Let_def fundsFailure_def stepState_def writeUpdate_def
        split: list.splits if_splits)

lemma buyOutcome_abort:
  assumes "fundsFailure out"
  shows "\<exists>s'. buyOutcome s out st st1 = Break s' \<and> abortDueToFunds s'"
  using assms
  by (auto simp add: buyOutcome_def Let_def fundsFailure_def split: outcome.splits)

lemma placeOrder_abort:
  assumes "fundsFailure out"
      and "submitted (stepState (placeOrder tok useFOK price out st)) \<noteq> submitted st"
  shows "\<exists>s. placeOrder tok useFOK price out st = Break s \<and> abortDueToFunds s"
  using assms buyOutcome_abort [OF assms(1)]
  by (auto simp add: placeOrder_def Let_def stepState_def writeUpdate_def
        split: prod.splits if_splits)

lemma buyStep_abort:
  assumes "fundsFailure (snd ev)"
      and "submitted (stepState (buyStep SKIP trade ev st)) \<noteq> submitted st"
  shows "\<exists>s. buyStep SKIP trade ev st = Break s \<and> abortDueToFunds s"
  using assms placeOrder_abort [OF assms(1)]
  by (auto simp add: buyStep_def Let_def stepState_def writeUpdate_def
        split: list.splits orderStyle.splits if_splits)

text \<open>
  C8 (funds errors end the trade). In every run of \<^verbatim>\<open>postOrder\<close> that ends, whichever
  of MERGE, SELL and BUY it executes: if the response to a posted order is not a success
  and its error message names the balance or the allowance, then that order is the last
  one the run posts, the run has given the trade up for lack of funds, and its last write
  to the trade's record sets \<^verbatim>\<open>bot\<close> and sets \<^verbatim>\<open>botExcutedTime\<close> to the retry limit.
  And the run does end there: in each of the three loops, a pass that posts an order and
  gets such a response leaves the loop, whatever answers would follow.
\<close>

theorem funds_error_aborts:
  "(\<forall>st i.
      (postOrder_merge L my_position evs = Some st
       \<or> (\<exists>tracked. postOrder_sell L my_position user_position trade previousBuys mult evs
                      = Some (st, tracked))
       \<or> postOrder_buy L SKIP trade preScaledAmount orderCalc bevs = Some st)
      \<and> i < length (submitted st) \<and> fundsFailure (sub_outcome (submitted st ! i)) \<longrightarrow>
      i = length (submitted st) - 1
      \<and> abortDueToFunds st
      \<and> upd_bot (last (updates st))
      \<and> upd_botExcutedTime (last (updates st)) = Some L)
   \<and> (\<forall>ev rest st.
        Finite 0 < remaining st \<and> retry st < L \<and> fundsFailure (Responded (snd ev))
        \<and> submitted (stepState (mergeStep tok ev st)) \<noteq> submitted st \<longrightarrow>
        (\<exists>s. runLoop L (mergeStep tok) (ev # rest) st = Some s \<and> abortDueToFunds s))
   \<and> (\<forall>ev rest st.
        Finite 0 < remaining st \<and> retry st < L \<and> fundsFailure (Responded (snd ev))
        \<and> submitted (stepState (sellStep tok ev st)) \<noteq> submitted st \<longrightarrow>
        (\<exists>s. runLoop L (sellStep tok) (ev # rest) st = Some s \<and> abortDueToFunds s))
   \<and> (\<forall>ev rest st.
        Finite 0 < remaining st \<and> retry st < L \<and> fundsFailure (snd ev)
        \<and> submitted (stepState (buyStep SKIP trade ev st)) \<noteq> submitted st \<longrightarrow>
        (\<exists>s. runLoop L (buyStep SKIP trade) (ev # rest) st = Some s \<and> abortDueToFunds s))"
proof (intro conjI allI impI)
  fix st i
  assume a: "(postOrder_merge L my_position evs = Some st
       \<or> (\<exists>tracked. postOrder_sell L my_position user_position trade previousBuys mult evs
                      = Some (st, tracked))
       \<or> postOrder_buy L SKIP trade preScaledAmount orderCalc bevs = Some st)
      \<and> i < length (submitted st) \<and> fundsFailure (sub_outcome (submitted st ! i))"
  then have "abortedOnLast st
       \<and> (abortDueToFunds st \<longrightarrow> upd_bot (last (updates st))
            \<and> upd_botExcutedTime (last (updates st)) = Some L)"
    using merge_run_funds [of L my_position evs st]
          sell_run_funds [of L my_position user_position trade previousBuys mult evs st]
          buy_run_funds [of L SKIP trade preScaledAmount orderCalc bevs st]
    by auto
  with abortedOnLast_index [of st i] a
  have r: "i = length (submitted st) - 1 \<and> abortDueToFunds st
       \<and> upd_bot (last (updates st))
       \<and> upd_botExcutedTime (last (updates st)) = Some L"
    by blast
  from r show "i = length (submitted st) - 1" by simp
  from r show "abortDueToFunds st" by simp
  from r show "upd_bot (last (updates st))" by simp
  from r show "upd_botExcutedTime (last (updates st)) = Some L" by simp
next
  fix ev :: "orderBook \<times> (string \<times> jsval) list" and rest st
  assume a: "Finite 0 < remaining st \<and> retry st < L \<and> fundsFailure (Responded (snd ev))
        \<and> submitted (stepState (mergeStep tok ev st)) \<noteq> submitted st"
  then obtain s where "mergeStep tok ev st = Break s" "abortDueToFunds s"
    using mergeStep_abort [of ev tok st] by blast
  with a show "\<exists>s. runLoop L (mergeStep tok) (ev # rest) st = Some s \<and> abortDueToFunds s"
    by (simp add: runLoop_break)
next
  fix ev :: "orderBook \<times> (string \<times> jsval) list" and rest st
  assume a: "Finite 0 < remaining st \<and> retry st < L \<and> fundsFailure (Responded (snd ev))
        \<and> submitted (stepState (sellStep tok ev st)) \<noteq> submitted st"
  then obtain s where "sellStep tok ev st = Break s" "abortDueToFunds s"
    using sellStep_abort [of ev tok st] by blast
  with a show "\<exists>s. runLoop L (sellStep tok) (ev # rest) st = Some s \<and> abortDueToFunds s"
    by (simp add: runLoop_break)
next
  fix ev :: "orderBook \<times> outcome" and rest st
  assume a: "Finite 0 < remaining st \<and> retry st < L \<and> fundsFailure (snd ev)
        \<and> submitted (stepState (buyStep SKIP trade ev st)) \<noteq> submitted st"
  then obtain s where "buyStep SKIP trade ev st = Break s" "abortDueToFunds s"
    using buyStep_abort [of ev SKIP trade st] by blast
  with a show "\<exists>s. runLoop L (buyStep SKIP trade) (ev # rest) st = Some s \<and> abortDueToFunds s"
    by (simp add: runLoop_break)
qed

text \<open>
  The witness: a MERGE of 30 tokens with retry limit 3. The first order is accepted, the
  second is refused for lack of funds; the third event is never read.
\<close>

lemma ex_funds_failure: "fundsFailure (Responded ex_funds_error)"
  by (simp add: fundsFailure_def ex_funds_error_def orderSucceeded_def field_def
        extractOrderError_def isInsufficientBalanceOrAllowanceError_def toLowerCase_def
        toLowerChar_def str_includes_def Let_def sublist_Cons_right prefix_def)

lemma ex_success_ok: "orderSucceeded ex_success" "\<not> fundsFailure (Responded ex_success)"
  by (simp_all add: fundsFailure_def ex_success_def orderSucceeded_def field_def)

lemma executor_values:
  "binary64 (1 / 10) = Finite (3602879701896397 / 36028797018963968)"
  "binary64 (2 / 5) = Finite (3602879701896397 / 9007199254740992)"
  "binary64 (1 / 2) = Finite (1 / 2)"
  "binary64 (13 / 25) = Finite (1170935903116329 / 2251799813685248)"
  "binary64 10000 = Finite 10000"
  "binary64 300000 = Finite 300000"
  "binary64 30 = Finite 30"
  "binary64 100000 = Finite 100000"
  "binary64 10 = Finite 10"
  "binary64 100 = Finite 100"
  "binary64 (29273397577908225 / 562949953421312) = Finite 52"
  "binary64 20 = Finite 20"
  "binary64 0 = Finite 0"
  "binary64 50 = Finite 50"
  by (simp_all add: b64)

lemma ex_merge_run:
  "postOrder_merge 3 (Some ex_held) [(ex_book, ex_success), (ex_book, ex_funds_error), (ex_book, ex_success)]
     = Some \<lparr>remaining = Finite 20, retry = 0, abortDueToFunds = True, totalFilled = Finite 0,
             submitted = [\<lparr>sub_order = MarketOrder SELL ''YES'' (Finite 10) (binary64 (52 / 100)),
                            sub_type = GTC, sub_outcome = Responded ex_success\<rparr>,
                          \<lparr>sub_order = MarketOrder SELL ''YES'' (Finite 10) (binary64 (52 / 100)),
                            sub_type = GTC, sub_outcome = Responded ex_funds_error\<rparr>],
             updates = [\<lparr>upd_bot = True, upd_botExcutedTime = Some 3, upd_myBoughtSize = None\<rparr>]\<rparr>"
proof -
  have f: "isInsufficientBalanceOrAllowanceError (extractOrderError (JObject ex_funds_error))"
          "\<not> orderSucceeded ex_funds_error"
    using ex_funds_failure by (simp_all add: fundsFailure_def)
  show ?thesis
    by (simp add: postOrder_merge_def ex_held_def ex_position_def roundToDecimals_defs
          MIN_ORDER_SIZE_TOKENS_def initState_def mergeStep_def ex_book_def
          maxPriceBid_def mergeOrder_def submit_def f ex_success_ok finishSell_def writeUpdate_def
          executor_values)
qed

theorem funds_error_aborts_witness:
  "\<exists>st. postOrder_merge 3 (Some ex_held)
           [(ex_book, ex_success), (ex_book, ex_funds_error), (ex_book, ex_success)] = Some st
        \<and> length (submitted st) = 2
        \<and> fundsFailure (sub_outcome (submitted st ! 1))
        \<and> abortDueToFunds st
        \<and> upd_botExcutedTime (last (updates st)) = Some 3"
proof -
  let ?st = "the (postOrder_merge 3 (Some ex_held)
           [(ex_book, ex_success), (ex_book, ex_funds_error), (ex_book, ex_success)])"
  have run: "postOrder_merge 3 (Some ex_held)
           [(ex_book, ex_success), (ex_book, ex_funds_error), (ex_book, ex_success)] = Some ?st"
    by (simp add: ex_merge_run)
  have i: "1 < length (submitted ?st)" "fundsFailure (sub_outcome (submitted ?st ! 1))"
    by (simp_all add: ex_merge_run ex_funds_failure)
  from funds_error_aborts [THEN conjunct1, rule_format, of 3 "Some ex_held"
          "[(ex_book, ex_success), (ex_book, ex_funds_error), (ex_book, ex_success)]" ?st _ _ _ _ _ _ _ _ 1]
       run i
  show ?thesis
    by (simp add: ex_merge_run)
qed

subsection \<open>The MERGE loop\<close>

lemma number_le_iff_not_less: "a \<noteq> NaN \<Longrightarrow> b \<noteq> NaN \<Longrightarrow> (a \<le> b) = (\<not> b < (a::number))"
  by (cases a; cases b) auto

text \<open>
  One pass of the MERGE loop over a book with bids: the order sells the remaining quantity
  or the size of the best bid, whichever is smaller (through the flooring helper for 4
  decimals), at the price of the best bid (through the helper for 2 decimals); an accepted
  order resets the retry counter and takes its amount off the remaining quantity, a
  refused one that is no funds failure counts as one more retry.
\<close>

lemma mergeOrder_min:
  assumes "rem \<noteq> NaN"
  shows "mergeOrder tok rem best
     = MarketOrder SELL tok (roundTokens (Math_min rem (entry_size best)))
         (roundPrice (entry_price best))"
proof (cases "entry_size best = NaN")
  case True
  then show ?thesis by (simp add: mergeOrder_def Math_min_def)
next
  case False
  with assms show ?thesis
    by (simp add: mergeOrder_def Math_min_def number_le_iff_not_less)
qed

lemma mergeStep_pass:
  assumes "bids (fst ev) = b # bs" and "best = maxPriceBid b bs"
      and "Finite 0 < remaining st"
      and "amount = roundTokens (Math_min (remaining st) (entry_size best))"
  shows "\<forall>x \<in> set (b # bs). \<not> entry_price best < entry_price x"
    and "submitted (stepState (mergeStep tok ev st)) = submitted st @
           [\<lparr>sub_order = MarketOrder SELL tok amount (roundPrice (entry_price best)),
             sub_type = GTC, sub_outcome = Responded (snd ev)\<rparr>]"
    and "orderSucceeded (snd ev) \<Longrightarrow>
           \<exists>s. mergeStep tok ev st = Continue s \<and> retry s = 0
               \<and> remaining s = remaining st - amount"
    and "\<not> orderSucceeded (snd ev) \<Longrightarrow> \<not> fundsFailure (Responded (snd ev)) \<Longrightarrow>
           \<exists>s. mergeStep tok ev st = Continue s \<and> retry s = retry st + 1
               \<and> remaining s = remaining st"
proof -
  from assms(3) have n: "remaining st \<noteq> NaN"
    using number_less_not_NaN by blast
  note ord = mergeOrder_min [OF n]
  show "\<forall>x \<in> set (b # bs). \<not> entry_price best < entry_price x"
    unfolding assms(2) by (rule maxPriceBid_greatest)
  show "submitted (stepState (mergeStep tok ev st)) = submitted st @
           [\<lparr>sub_order = MarketOrder SELL tok amount (roundPrice (entry_price best)),
             sub_type = GTC, sub_outcome = Responded (snd ev)\<rparr>]"
    using assms(1,2,4)
    by (simp add: mergeStep_def Let_def ord stepState_def submit_def)
  show "\<exists>s. mergeStep tok ev st = Continue s \<and> retry s = 0
               \<and> remaining s = remaining st - amount" if "orderSucceeded (snd ev)"
    using assms(1,2,4) that
    by (simp add: mergeStep_def Let_def ord submit_def)
  show "\<exists>s. mergeStep tok ev st = Continue s \<and> retry s = retry st + 1
               \<and> remaining s = remaining st"
    if "\<not> orderSucceeded (snd ev)" "\<not> fundsFailure (Responded (snd ev))"
    using assms(1,2,4) that
    by (simp add: mergeStep_def Let_def ord submit_def fundsFailure_def)
qed

text \<open>
  When the loop ends, the loop test has failed (the remaining quantity is not positive, or
  the retry budget is used up), or funds ran out, or the book had no bids (and the trade
  was marked processed).
\<close>

lemma merge_exits:
  assumes "runLoop L (mergeStep tok) evs (initState rem) = Some st"
  shows "\<not> Finite 0 < remaining st \<or> L \<le> retry st \<or> abortDueToFunds st
         \<or> updates st = [processed]"
proof (rule runLoop_rule [OF assms, where I = "\<lambda>s. updates s = []"])
  show "updates (initState rem) = []" by (simp add: initState_def)
next
  fix ev s s' assume "updates s = []" "mergeStep tok ev s = Continue s'"
  then show "updates s' = []"
    by (auto simp add: mergeStep_def Let_def submit_def split: list.splits if_splits)
next
  fix ev s s' assume "updates s = []" "mergeStep tok ev s = Break s'"
  then show "\<not> Finite 0 < remaining s' \<or> L \<le> retry s' \<or> abortDueToFunds s'
             \<or> updates s' = [processed]"
    by (auto simp add: mergeStep_def Let_def submit_def writeUpdate_def split: list.splits if_splits)
next
  fix s assume "updates s = []" "\<not> (Finite 0 < remaining s \<and> retry s < L)"
  then show "\<not> Finite 0 < remaining s \<or> L \<le> retry s \<or> abortDueToFunds s
             \<or> updates s = [processed]"
    by auto
qed

text \<open>
  A pass whose order is for 0 tokens and is accepted changes neither the remaining quantity
  nor the retry counter: with such answers the loop goes on for as long as it is answered.
\<close>

lemma merge_stuck:
  assumes "bids bk = [best]"
      and "Finite 0 < r"
      and "o_amount (mergeOrder tok r best) = Finite 0"
      and "r - Finite 0 = r"
      and "remaining st = r" "retry st = 0"
  shows "runLoop 3 (mergeStep tok) (replicate n (bk, ex_success)) st = None"
  using assms(5,6)
proof (induction n arbitrary: st)
  case 0
  with assms(2) show ?case by simp
next
  case (Suc n)
  let ?o = "mergeOrder tok r best"
  let ?st = "(submit ?o GTC (Responded ex_success) st)\<lparr>retry := 0, remaining := r\<rparr>"
  have step: "mergeStep tok (bk, ex_success) st = Continue ?st"
    using Suc.prems assms(1,3,4)
    by (simp add: mergeStep_def Let_def ex_success_ok maxPriceBid_def)
  have "runLoop 3 (mergeStep tok) (replicate n (bk, ex_success)) ?st = None"
    by (rule Suc.IH) simp_all
  with Suc.prems assms(2) step show ?case by simp
qed

text \<open>
  C3 (the MERGE loop always terminates) fails on the code. The loop has no test of the
  order's amount, as the SELL loop has: when the best bid has size 0 the order is for 0
  tokens, and if the exchange reports success the retry counter is reset and the remaining
  quantity stays as it is. With such answers the run of a MERGE of 30 tokens has no result,
  however many answers it is given.
\<close>

theorem merge_zero_fill_never_ends:
  "\<forall>n. postOrder_merge 3 (Some ex_held) (replicate n (zero_book, ex_success)) = None"
proof
  fix n
  have "runLoop 3 (mergeStep ''YES'') (replicate n (zero_book, ex_success)) (initState (Finite 30))
          = None"
    by (rule merge_stuck [where best = "\<lparr>entry_price = Finite (1 / 2), entry_size = Finite 0\<rparr>"
                           and r = "Finite 30"])
       (simp_all add: zero_book_def initState_def mergeOrder_def roundToDecimals_defs
          executor_values)
  then show "postOrder_merge 3 (Some ex_held) (replicate n (zero_book, ex_success)) = None"
    by (simp add: postOrder_merge_def ex_held_def ex_position_def Let_def roundToDecimals_defs
          MIN_ORDER_SIZE_TOKENS_def executor_values)
qed

text \<open>
  The same happens without a bid of size 0 (scenario B of the specification): a MERGE of
  12.3456 tokens is floored to 12.3455; after bids of 10 and of 5 tokens have taken 10 and
  2.3454 tokens, 0.00009999999999932 tokens remain, and every further order is for 0
  tokens.
\<close>

lemma merge_scenario_values:
  "binary64 (1 / 10) = Finite (3602879701896397 / 36028797018963968)"
  "binary64 (7716 / 625) = Finite (6949954944958149 / 562949953421312)"
  "binary64 (24691 / 2000) = Finite (6949898649962807 / 562949953421312)"
  "binary64 (11727 / 5000) = Finite (5281371283017381 / 2251799813685248)"
  "binary64 10000 = Finite 10000"
  "binary64 (4343721840598843125 / 35184372088832) = Finite (8483831719919615 / 68719476736)"
  "binary64 100000 = Finite 100000"
  "binary64 10 = Finite 10"
  "binary64 100 = Finite 100"
  "binary64 50 = Finite 50"
  "binary64 (1 / 2) = Finite (1 / 2)"
  "binary64 (1320399115749687 / 562949953421312) = Finite (1320399115749687 / 562949953421312)"
  "binary64 (825249447343554375 / 35184372088832) = Finite (6447261307371519 / 274877906944)"
  "binary64 (225179981367 / 2251799813685248) = Finite (225179981367 / 2251799813685248)"
  "binary64 (140737488354375 / 140737488355328) = Finite (140737488354375 / 140737488355328)"
  "binary64 0 = Finite 0"
  by (simp_all add: b64)

lemma merge_dust_never_ends:
  "postOrder_merge 3 (Some ex_held4)
     ((bid_book (Finite 10), ex_success) # (bid_book (Finite 5), ex_success)
        # replicate n (bid_book (Finite 5), ex_success)) = None"
proof -
  let ?r = "Finite (225179981367 / 2251799813685248)"
  let ?st = "\<lparr>remaining = ?r, retry = 0, abortDueToFunds = False, totalFilled = Finite 0,
             submitted =
               [\<lparr>sub_order = MarketOrder SELL ''YES'' (Finite 10) (Finite (1 / 2)), sub_type = GTC,
                 sub_outcome = Responded ex_success\<rparr>,
                \<lparr>sub_order = MarketOrder SELL ''YES'' (binary64 (23454 / 10000)) (Finite (1 / 2)),
                 sub_type = GTC, sub_outcome = Responded ex_success\<rparr>],
             updates = []\<rparr>"
  have two: "runLoop 3 (mergeStep ''YES'')
          ((bid_book (Finite 10), ex_success) # (bid_book (Finite 5), ex_success) # rest)
          (initState (Finite (6949898649962807 / 562949953421312)))
        = runLoop 3 (mergeStep ''YES'') rest ?st" for rest
    by (simp add: initState_def mergeStep_def bid_book_def maxPriceBid_def mergeOrder_def
          submit_def ex_success_ok roundToDecimals_defs merge_scenario_values)
  have "runLoop 3 (mergeStep ''YES'') (replicate n (bid_book (Finite 5), ex_success)) ?st = None"
    by (rule merge_stuck [where best = "\<lparr>entry_price = Finite (1 / 2), entry_size = Finite 5\<rparr>"
                           and r = ?r])
       (simp_all add: bid_book_def mergeOrder_def roundToDecimals_defs merge_scenario_values)
  then show ?thesis
    by (simp add: postOrder_merge_def ex_held4_def ex_position_def Let_def roundToDecimals_defs
          MIN_ORDER_SIZE_TOKENS_def merge_scenario_values two del: runLoop.simps)
qed

subsection \<open>SELL sizing\<close>

lemma sell_values:
  "binary64 (1 / 10) = Finite (3602879701896397 / 36028797018963968)"
  "binary64 (1029 / 10000) = Finite (7414726426502785 / 72057594037927936)"
  "binary64 (7716 / 625) = Finite (6949954944958149 / 562949953421312)"
  "binary64 (24691 / 2000) = Finite (6949898649962807 / 562949953421312)"
  "binary64 (2 / 5) = Finite (3602879701896397 / 9007199254740992)"
  "binary64 (10289999999999999 / 100000000000000000) = Finite (57927550207053 / 562949953421312)"
  "binary64 10000 = Finite 10000"
  "binary64 (36204718879408125 / 35184372088832) = Finite 1029"
  "binary64 (4634204016564240625 / 4503599627370496) = Finite 1029"
  "binary64 100 = Finite 100"
  "binary64 50 = Finite 50"
  "binary64 (1 / 2) = Finite (1 / 2)"
  "binary64 (7414726426502785 / 72057594037927936) = Finite (7414726426502785 / 72057594037927936)"
  "binary64 0 = Finite 0"
  "binary64 (4343721840598843125 / 35184372088832) = Finite (8483831719919615 / 68719476736)"
  "binary64 80 = Finite 80"
  "binary64 (18014398509481985 / 562949953421312) = Finite 32"
  "binary64 32 = Finite 32"
  "binary64 320000 = Finite 320000"
  "binary64 250000 = Finite 250000"
  "binary64 25 = Finite 25"
  by (simp_all add: b64)

lemmas sell_defs =
  sellQuantity_def sellRemaining_def totalBoughtTokens_def MIN_ORDER_SIZE_TOKENS_def
  ex_position_def ex_sell_trade_def roundToDecimals_defs

text \<open>
  The sizing where the tracked purchases decide (scenario C of the specification): the
  trader had 60 tokens left after selling 40, so the proportion is 0.4, and 80 tracked
  tokens give 32. Holding 50 tokens the engine sells 32, holding 25 it sells 25.
\<close>

lemma sell_scenario_tracked:
  "totalBoughtTokens [(''b1'', Finite 50), (''b2'', Finite 30)] = Finite 80"
  "sellQuantity (ex_position (Finite 50)) (Some (ex_position (Finite 60))) ex_sell_trade
     (Finite 80) (Finite 1) = Some (Finite 32)"
  "sellQuantity (ex_position (Finite 25)) (Some (ex_position (Finite 60))) ex_sell_trade
     (Finite 80) (Finite 1) = Some (Finite 25)"
  by (simp_all add: sell_defs orZero_def sell_values)

text \<open>
  C4 (the sell quantity never exceeds the position held, and a closed position of the
  trader sells the whole position held) fails on the code, through the flooring helper.
  With 0.10289999999999999 tokens held and the trader's position closed, the quantity is
  \<^verbatim>\<open>roundTokens(0.10289999999999999)\<close>, which is 0.1029: more than is held. The cap
  \<^verbatim>\<open>remaining > my_position.size\<close> sees it and sets the quantity to the same
  \<^verbatim>\<open>roundTokens(my_position.size)\<close> again, and the loop posts an order for 0.1029 tokens,
  whatever bid of at least that size it meets. And with 12.3456 tokens held the quantity is
  12.3455: a ten-thousandth of a token stays unsold though the claim has the entire
  position sold.
\<close>

theorem sell_exceeds_held:
  "pos_size ex_dust < binary64 (1029 / 10000)
   \<and> sellQuantity ex_dust None ex_sell_trade (totalBoughtTokens []) (Finite 1)
       = Some (binary64 (1029 / 10000))
   \<and> submitted (stepState (sellStep ''YES'' (bid_book (Finite 10), resp)
                              (initState (binary64 (1029 / 10000)))))
       = [\<lparr>sub_order = MarketOrder SELL ''YES'' (binary64 (1029 / 10000)) (Finite (1 / 2)),
           sub_type = GTC, sub_outcome = Responded resp\<rparr>]
   \<and> (\<exists>st tracked.
         postOrder_sell 3 (Some ex_dust) None ex_sell_trade [] (Finite 1)
           [(bid_book (Finite 10), ex_success)] = Some (st, tracked)
         \<and> totalFilled st = binary64 (1029 / 10000))
   \<and> sellQuantity ex_held4 None ex_sell_trade (totalBoughtTokens []) (Finite 1)
       = Some (binary64 (123455 / 10000))
   \<and> binary64 (123455 / 10000) < pos_size ex_held4"
proof (intro conjI)
  show "pos_size ex_dust < binary64 (1029 / 10000)"
    by (simp add: ex_dust_def ex_position_def sell_values)
  show q: "sellQuantity ex_dust None ex_sell_trade (totalBoughtTokens []) (Finite 1)
       = Some (binary64 (1029 / 10000))"
    by (simp add: ex_dust_def sell_defs sell_values)
  show "submitted (stepState (sellStep ''YES'' (bid_book (Finite 10), resp)
                              (initState (binary64 (1029 / 10000)))))
       = [\<lparr>sub_order = MarketOrder SELL ''YES'' (binary64 (1029 / 10000)) (Finite (1 / 2)),
           sub_type = GTC, sub_outcome = Responded resp\<rparr>]"
    by (simp add: sellStep_def bid_book_def initState_def maxPriceBid_def Math_min_def
          MIN_ORDER_SIZE_TOKENS_def roundToDecimals_defs submit_def stepState_def sell_values)
  have run: "runLoop 3 (sellStep ''YES'') [(bid_book (Finite 10), ex_success)]
               (initState (binary64 (1029 / 10000)))
             = Some \<lparr>remaining = Finite 0, retry = 0, abortDueToFunds = False,
                     totalFilled = binary64 (1029 / 10000),
                     submitted = [\<lparr>sub_order = MarketOrder SELL ''YES'' (binary64 (1029 / 10000))
                                                  (Finite (1 / 2)),
                                    sub_type = GTC, sub_outcome = Responded ex_success\<rparr>],
                     updates = []\<rparr>"
    by (simp add: sellStep_def bid_book_def initState_def maxPriceBid_def Math_min_def
          MIN_ORDER_SIZE_TOKENS_def roundToDecimals_defs submit_def ex_success_ok sell_values)
  show "\<exists>st tracked.
         postOrder_sell 3 (Some ex_dust) None ex_sell_trade [] (Finite 1)
           [(bid_book (Finite 10), ex_success)] = Some (st, tracked)
         \<and> totalFilled st = binary64 (1029 / 10000)"
  proof -
    have ta: "trade_asset ex_sell_trade = ''YES''"
      by (simp add: ex_sell_trade_def)
    show ?thesis
      unfolding postOrder_sell_def
      by (simp add: q ta run finishSell_def writeUpdate_def del: runLoop.simps)
  qed
  show "sellQuantity ex_held4 None ex_sell_trade (totalBoughtTokens []) (Finite 1)
       = Some (binary64 (123455 / 10000))"
    by (simp add: ex_held4_def sell_defs sell_values)
  show "binary64 (123455 / 10000) < pos_size ex_held4"
    by (simp add: ex_held4_def ex_position_def sell_values)
qed

subsection \<open>BUY: order style and precision\<close>

text \<open>
  A pass that comes to an order of a token quantity other than 0 hands the client that
  order, whatever the outcome is.
\<close>

lemma buyOutcome_submitted:
  "submitted (stepState (buyOutcome s out st st1)) = submitted st1"
  by (auto simp add: buyOutcome_def stepState_def Let_def writeUpdate_def split: outcome.splits)

lemma placeOrder_submitted:
  assumes "s = precisionBlock useFOK (remaining st) price" and "finalTokens s \<noteq> Finite 0"
  shows "submitted (stepState (placeOrder tok useFOK price out st)) = submitted st @
           [\<lparr>sub_order = fst (buyOrder tok useFOK s), sub_type = snd (buyOrder tok useFOK s),
             sub_outcome = out\<rparr>]"
  using assms
  by (simp add: placeOrder_def Let_def buyOutcome_submitted submit_def split: prod.splits)

lemma buy_values:
  "binary64 (1 / 10) = Finite (3602879701896397 / 36028797018963968)"
  "binary64 (29 / 50) = Finite (5224175567749775 / 9007199254740992)"
  "binary64 (57 / 100) = Finite (5134103575202365 / 9007199254740992)"
  "binary64 (35087 / 10000) = Finite (3950445003138715 / 1125899906842624)"
  "binary64 (23 / 20) = Finite (2589569785738035 / 2251799813685248)"
  "binary64 (57 / 50) = Finite (5134103575202365 / 4503599627370496)"
  "binary64 (113 / 100) = Finite (1272266894732165 / 1125899906842624)"
  "binary64 (22599 / 10000) = Finite (1272210599736823 / 562949953421312)"
  "binary64 (11 / 100) = Finite (7926335344172073 / 72057594037927936)"
  "binary64 (569 / 100) = Finite (6406370469934531 / 1125899906842624)"
  "binary64 (569 / 1000) = Finite (640637046993453 / 1125899906842624)"
  "binary64 (1 / 200) = Finite (5764607523034235 / 1152921504606846976)"
  "binary64 (11 / 10) = Finite (2476979795053773 / 2251799813685248)"
  "binary64 (1 / 100) = Finite (5764607523034235 / 576460752303423488)"
  "binary64 (1 / 50) = Finite (5764607523034235 / 288230376151711744)"
  "binary64 100 = Finite 100"
  "binary64 200 = Finite 200"
  "binary64 2 = Finite 2"
  "binary64 (12940177327129765883600733651075 / 20282409603651670423947251286016) = Finite (5746593124524753 / 9007199254740992)"
  "binary64 (130604389193744375 / 2251799813685248) = Finite (8162774324609023 / 140737488355328)"
  "binary64 (18014398509481984 / 5134103575202365) = Finite (246907874307593 / 70368744177664)"
  "binary64 (128352589380059125 / 2251799813685248) = Finite (8022036836253695 / 140737488355328)"
  "binary64 (154317421442245625 / 4398046511104) = Finite (150700606877193 / 4294967296)"
  "binary64 (64739244643450875 / 562949953421312) = Finite (8092405580431359 / 70368744177664)"
  "binary64 (2476979795053773 / 4503599627370496) = Finite (2476979795053773 / 4503599627370496)"
  "binary64 50 = Finite 50"
  "binary64 (1 / 2) = Finite (1 / 2)"
  "binary64 (5134103575202365 / 2251799813685248) = Finite (5134103575202365 / 2251799813685248)"
  "binary64 (128352589380059125 / 1125899906842624) = Finite (8022036836253695 / 70368744177664)"
  "binary64 (1272266894732165 / 562949953421312) = Finite (1272266894732165 / 562949953421312)"
  "binary64 (795166809207603125 / 35184372088832) = Finite (6212240696934399 / 274877906944)"
  "binary64 (1272210599736823 / 562949953421312) = Finite (1272210599736823 / 562949953421312)"
  "binary64 (45035996273705 / 4503599627370496) = Finite (45035996273705 / 4503599627370496)"
  "binary64 (8924260225606736202508689955881 / 81129638414606681695789005144064) = Finite (3963167672086037 / 36028797018963968)"
  "binary64 (90071992547409925 / 9007199254740992) = Finite 10"
  "binary64 (198158383604301825 / 18014398509481984) = Finite 11"
  "binary64 (20536414300809460 / 3602879701896397) = Finite (1604407367250739 / 281474976710656)"
  "binary64 (45692212355106484312812909919155 / 20769187434139310514121985316880384) = Finite (5072854620270127 / 2305843009213693952)"
  "binary64 (57646075230342349 / 576460752303423488) = Finite (3602879701896397 / 36028797018963968)"
  "binary64 (3208814734501478125 / 562949953421312) = Finite (6267216278323199 / 1099511627776)"
  "binary64 (6267216278323199 / 10995116277760) = Finite (5013773022658559 / 8796093022208)"
  "binary64 5690 = Finite 5690"
  "binary64 (6406370469934531 / 1125899906842624) = Finite (6406370469934531 / 1125899906842624)"
  "binary64 (9007199254741 / 9007199254740992) = Finite (9007199254741 / 9007199254740992)"
  "binary64 (14278816360970777428617944918655 / 2596148429267413814265248164610048) = Finite (6341068275337659 / 1152921504606846976)"
  "binary64 (144115188075855875 / 288230376151711744) = Finite (1 / 2)"
  "binary64 0 = Finite 0"
  by (simp_all add: b64)

lemmas buy_defs =
  buyStep_def ask_book_def ex_buy_trade_def initState_def minPriceAsk_def MIN_ORDER_SIZE_USD_def
  selectOrderStyle_def Math_max_def Math_min_def roundToDecimals_defs

text \<open>
  C5 (a Fill-Or-Kill order is priced at the current best ask) fails on the code, through
  the flooring helper. With 2 USD to buy and the best ask at 0.58, the price of the order
  is \<^verbatim>\<open>roundPrice(0.58)\<close>, which is 0.57: one cent under the best ask, where a
  Fill-Or-Kill order finds nothing to fill it.
\<close>

theorem buy_fok_below_best_ask:
  "submitted (stepState (buyStep False (ex_buy_trade (binary64 (58 / 100)))
                           (ask_book (binary64 (58 / 100)), out) (initState (Finite 2))))
     = [\<lparr>sub_order = MarketOrder BUY ''YES'' (Finite 2) (binary64 (57 / 100)),
         sub_type = FOK, sub_outcome = out\<rparr>]
   \<and> binary64 (57 / 100) < binary64 (58 / 100)"
proof
  have p: "precisionBlock True (Finite 2) (Finite (5134103575202365 / 9007199254740992))
             = \<lparr>finalPrice = binary64 (57 / 100), finalTokens = binary64 (35087 / 10000),
                finalUsdCost = Finite 2\<rparr>"
    by (simp add: precisionBlock_def Let_def buy_values)
  have s: "buyStep False (ex_buy_trade (binary64 (58 / 100)))
             (ask_book (binary64 (58 / 100)), out) (initState (Finite 2))
           = placeOrder ''YES'' True (Finite (5134103575202365 / 9007199254740992)) out
               (initState (Finite 2))"
    by (simp add: buy_defs buy_values)
  show "submitted (stepState (buyStep False (ex_buy_trade (binary64 (58 / 100)))
                           (ask_book (binary64 (58 / 100)), out) (initState (Finite 2))))
     = [\<lparr>sub_order = MarketOrder BUY ''YES'' (Finite 2) (binary64 (57 / 100)),
         sub_type = FOK, sub_outcome = out\<rparr>]"
    unfolding s
    by (subst placeOrder_submitted [OF refl])
       (simp_all add: initState_def p buyOrder_def buy_values)
  show "binary64 (57 / 100) < binary64 (58 / 100)"
    by (simp add: buy_values)
qed

text \<open>
  The whole run, when the exchange refuses each of these orders: three orders at 0.57, and
  the trade is given up with the retry limit as its annotation.
\<close>

lemma ex_refused_plain:
  "\<not> orderSucceeded ex_refused"
  "extractOrderError (JObject ex_refused) = Some ''no match''"
  "\<not> isInsufficientBalanceOrAllowanceError (Some ''no match'')"
  "\<not> isSizeMinError (Some ''no match'')"
  "\<not> isDecimalError (Some ''no match'')"
  by (simp_all add: ex_refused_def orderSucceeded_def field_def extractOrderError_def
        topLevelMessage_def isInsufficientBalanceOrAllowanceError_def isSizeMinError_def
        isDecimalError_def toLowerCase_def toLowerChar_def str_includes_def Let_def
        sublist_Cons_right prefix_def)

lemma buy_fok_run:
  "postOrder_buy 3 False (ex_buy_trade (binary64 (58 / 100))) (Some (Finite 2)) (False, Finite 0)
     (replicate 3 (ask_book (binary64 (58 / 100)), Responded ex_refused))
   = Some \<lparr>remaining = Finite 2, retry = 3, abortDueToFunds = False, totalFilled = Finite 0,
           submitted = replicate 3
             \<lparr>sub_order = MarketOrder BUY ''YES'' (Finite 2) (binary64 (57 / 100)),
              sub_type = FOK, sub_outcome = Responded ex_refused\<rparr>,
           updates = [\<lparr>upd_bot = True, upd_botExcutedTime = Some 3,
                       upd_myBoughtSize = Some (Finite 0)\<rparr>]\<rparr>"
proof -
  have step: "buyStep False (ex_buy_trade (Finite (5224175567749775 / 9007199254740992)))
                (ask_book (Finite (5224175567749775 / 9007199254740992)), Responded ex_refused)
                \<lparr>remaining = Finite 2, retry = k, abortDueToFunds = False, totalFilled = Finite 0,
                 submitted = subs, updates = []\<rparr>
              = Continue \<lparr>remaining = Finite 2, retry = k + 1, abortDueToFunds = False,
                          totalFilled = Finite 0,
                          submitted = subs @
                            [\<lparr>sub_order = MarketOrder BUY ''YES'' (Finite 2) (Finite (5134103575202365 / 9007199254740992)),
                              sub_type = FOK, sub_outcome = Responded ex_refused\<rparr>],
                          updates = []\<rparr>" for k subs
    by (simp add: buy_defs placeOrder_def precisionBlock_def buyOrder_def buyOutcome_def
          submit_def ex_refused_plain buy_values)
  show ?thesis
    by (simp add: postOrder_buy_def roundToDecimals_defs numeral_3_eq_3 initState_def step
          finishBuy_def writeUpdate_def buy_values)
qed

text \<open>
  Where the best ask is under one cent the price of the order is 0: the division by it
  gives an infinite token quantity, the order is posted all the same, and an accepted
  order makes the tracked purchase infinite.
\<close>

lemma buy_zero_cent_price:
  "buyStep False (ex_buy_trade (binary64 (5 / 1000)))
     (ask_book (binary64 (5 / 1000)), Responded ex_success) (initState (Finite 2))
   = Continue \<lparr>remaining = Finite 0, retry = 0, abortDueToFunds = False, totalFilled = Infinity,
               submitted = [\<lparr>sub_order = MarketOrder BUY ''YES'' (Finite 2) (Finite 0),
                              sub_type = FOK, sub_outcome = Responded ex_success\<rparr>],
               updates = []\<rparr>"
  by (simp add: buy_defs placeOrder_def precisionBlock_def buyOrder_def buyOutcome_def
        submit_def ex_success_ok buy_values)

text \<open>
  C6 (the precision rules) fails on the code, through the rounding of its products and
  quotients. An amount of 1.15 USD becomes the remaining amount 1.14; the Fill-Or-Kill
  order is then for \<^verbatim>\<open>Math.floor(1.14 * 100) / 100\<close>, which is 1.13 USD, not for the
  remaining amount floored to 2 decimals, and its token quantity at the price 0.50 is
  2.2599, not 1.13 / 0.50 floored to 4 decimals. An amount of 0.58 USD becomes 0.57; the
  limit order at the price 0.10 is for \<^verbatim>\<open>Math.floor(0.57 * 10000 / 10) / 100\<close>, which is
  5.69 tokens, not for 0.57 / 0.10 floored to 2 decimals.
\<close>

theorem buy_precision_drift:
  "roundAmount (binary64 (115 / 100)) = binary64 (114 / 100)
   \<and> submitted (stepState (buyStep False (ex_buy_trade (Finite (1 / 2)))
                              (ask_book (Finite (1 / 2)), out) (initState (binary64 (114 / 100)))))
       = [\<lparr>sub_order = MarketOrder BUY ''YES'' (binary64 (113 / 100)) (Finite (1 / 2)),
           sub_type = FOK, sub_outcome = out\<rparr>]
   \<and> precisionBlock True (binary64 (114 / 100)) (Finite (1 / 2))
       = \<lparr>finalPrice = Finite (1 / 2), finalTokens = binary64 (22599 / 10000),
          finalUsdCost = binary64 (113 / 100)\<rparr>
   \<and> roundAmount (binary64 (58 / 100)) = binary64 (57 / 100)
   \<and> selectOrderStyle (binary64 (57 / 100)) (binary64 (1 / 10)) (binary64 (11 / 100))
       = UseGTC (binary64 (1 / 10))
   \<and> precisionBlock False (binary64 (57 / 100)) (binary64 (1 / 10))
       = \<lparr>finalPrice = binary64 (1 / 10), finalTokens = binary64 (569 / 100),
          finalUsdCost = binary64 (569 / 1000)\<rparr>
   \<and> submitted (stepState (buyStep False (ex_buy_trade (binary64 (1 / 10)))
                              (ask_book (binary64 (11 / 100)), out)
                              (initState (binary64 (57 / 100)))))
       = [\<lparr>sub_order = LimitOrder BUY ''YES'' (binary64 (569 / 100)) (binary64 (1 / 10)),
           sub_type = GTC, sub_outcome = out\<rparr>]"
proof (intro conjI)
  show "roundAmount (binary64 (115 / 100)) = binary64 (114 / 100)"
    by (simp add: roundToDecimals_defs buy_values)
  show "precisionBlock True (binary64 (114 / 100)) (Finite (1 / 2))
       = \<lparr>finalPrice = Finite (1 / 2), finalTokens = binary64 (22599 / 10000),
          finalUsdCost = binary64 (113 / 100)\<rparr>"
    by (simp add: precisionBlock_def Let_def buy_values)
  have s: "buyStep False (ex_buy_trade (Finite (1 / 2)))
             (ask_book (Finite (1 / 2)), out) (initState (binary64 (114 / 100)))
           = placeOrder ''YES'' True (Finite (1 / 2)) out (initState (binary64 (114 / 100)))"
    by (simp add: buy_defs buy_values)
  show "submitted (stepState (buyStep False (ex_buy_trade (Finite (1 / 2)))
                              (ask_book (Finite (1 / 2)), out) (initState (binary64 (114 / 100)))))
       = [\<lparr>sub_order = MarketOrder BUY ''YES'' (binary64 (113 / 100)) (Finite (1 / 2)),
           sub_type = FOK, sub_outcome = out\<rparr>]"
    unfolding s
    by (subst placeOrder_submitted [OF refl])
       (simp_all add: initState_def precisionBlock_def Let_def buyOrder_def buy_values)
  show "roundAmount (binary64 (58 / 100)) = binary64 (57 / 100)"
    by (simp add: roundToDecimals_defs buy_values)
  show "selectOrderStyle (binary64 (57 / 100)) (binary64 (1 / 10)) (binary64 (11 / 100))
       = UseGTC (binary64 (1 / 10))"
    by (simp add: selectOrderStyle_def Math_max_def Math_min_def roundToDecimals_defs buy_values)
  show "precisionBlock False (binary64 (57 / 100)) (binary64 (1 / 10))
       = \<lparr>finalPrice = binary64 (1 / 10), finalTokens = binary64 (569 / 100),
          finalUsdCost = binary64 (569 / 1000)\<rparr>"
    by (simp add: precisionBlock_def Let_def buy_values)
  have g: "buyStep False (ex_buy_trade (binary64 (1 / 10)))
             (ask_book (binary64 (11 / 100)), out) (initState (binary64 (57 / 100)))
           = placeOrder ''YES'' False (Finite (3602879701896397 / 36028797018963968)) out
               (initState (binary64 (57 / 100)))"
    by (simp add: buy_defs buy_values)
  show "submitted (stepState (buyStep False (ex_buy_trade (binary64 (1 / 10)))
                              (ask_book (binary64 (11 / 100)), out)
                              (initState (binary64 (57 / 100)))))
       = [\<lparr>sub_order = LimitOrder BUY ''YES'' (binary64 (569 / 100)) (binary64 (1 / 10)),
           sub_type = GTC, sub_outcome = out\<rparr>]"
    unfolding g
    by (subst placeOrder_submitted [OF refl])
       (simp_all add: initState_def precisionBlock_def Let_def buyOrder_def buy_values)
qed

end
